theory Spec2Isabelle
  imports Main
begin

section \<open>Strings\<close>

text \<open>
  A JavaScript string is a sequence of UTF-16 code units. The patterns of \<open>src/index.ts\<close>
  carry no \<open>u\<close> flag, so they work on code units too. A code unit is a natural number
  here; \<open>js\<close> turns an ASCII literal into such a string.
\<close>

type_synonym jsstring = "nat list"

definition js :: "string \<Rightarrow> jsstring" where
  "js s = map of_char s"

text \<open>JavaScript truthiness of \<open>string | null\<close>: neither null nor the empty string.\<close>

fun truthy :: "jsstring option \<Rightarrow> bool" where
  "truthy None = False"
| "truthy (Some s) = (s \<noteq> [])"

text \<open>
  \<open>\s\<close>, \<open>String.prototype.trim\<close> and the leading blanks of \<open>parseInt\<close> share one
  set: WhiteSpace and LineTerminator of ECMAScript.
\<close>

definition isLineTerminator :: "nat \<Rightarrow> bool" where
  "isLineTerminator c = (c = 10 \<or> c = 13 \<or> c = 8232 \<or> c = 8233)"

definition isSpace :: "nat \<Rightarrow> bool" where
  "isSpace c = (c = 32 \<or> (9 \<le> c \<and> c \<le> 13) \<or> c = 160 \<or> c = 5760
     \<or> (8192 \<le> c \<and> c \<le> 8202) \<or> c = 8232 \<or> c = 8233 \<or> c = 8239 \<or> c = 8287
     \<or> c = 12288 \<or> c = 65279)"

definition isDigit :: "nat \<Rightarrow> bool" where
  "isDigit c = (48 \<le> c \<and> c \<le> 57)"

text \<open>\<open>\w\<close>, which decides \<open>\b\<close>: \<open>[A-Za-z0-9_]\<close>.\<close>

definition isWordChar :: "nat \<Rightarrow> bool" where
  "isWordChar c = ((65 \<le> c \<and> c \<le> 90) \<or> (97 \<le> c \<and> c \<le> 122) \<or> isDigit c \<or> c = 95)"

text \<open>
  Canonicalize of the \<open>i\<close> flag without \<open>u\<close>: a code unit is compared by its upper case,
  and a code unit from 128 on never folds onto an ASCII one. Every letter that the patterns
  of this program name is ASCII, and their other characters have no case, so folding the
  ASCII letters is all that can make two code units meet.
\<close>

definition canon :: "nat \<Rightarrow> nat" where
  "canon c = (if 97 \<le> c \<and> c \<le> 122 then c - 32 else c)"

definition trim :: "jsstring \<Rightarrow> jsstring" where
  "trim s = rev (dropWhile isSpace (rev (dropWhile isSpace s)))"

section \<open>Regular expressions\<close>

text \<open>
  The fragment of ECMAScript patterns that \<open>src/index.ts\<close> uses. Every quantified
  term of the source is a single-character matcher (\<open>\s*\<close>, \<open>[^>]+\<close>, \<open>.*?\<close>,
  \<open>\d+\<close>, ...), so \<open>Star\<close> and \<open>StarLazy\<close> take a character set.
\<close>

datatype cset =
    Ch nat                \<comment> \<open>a literal character\<close>
  | Dot                   \<comment> \<open>\<open>.\<close>\<close>
  | Ws                    \<comment> \<open>\<open>\s\<close>\<close>
  | Dig                   \<comment> \<open>\<open>\d\<close>\<close>
  | Rng nat nat           \<comment> \<open>\<open>a-z\<close> inside a class\<close>
  | OneOf "cset list"     \<comment> \<open>\<open>[...]\<close>\<close>
  | NoneOf "cset list"    \<comment> \<open>\<open>[^...]\<close>, and \<open>\S\<close> as \<open>NoneOf [Ws]\<close>\<close>

datatype re =
    Eps
  | One cset
  | Seq re re
  | Or re re              \<comment> \<open>\<open>a|b\<close>: the left branch first\<close>
  | Star cset             \<comment> \<open>greedy \<open>c*\<close>\<close>
  | StarLazy cset         \<comment> \<open>\<open>c*?\<close>\<close>
  | Grp nat re            \<comment> \<open>capturing group with its number\<close>
  | Bref nat              \<comment> \<open>\<open>\1\<close>\<close>
  | Bos                   \<comment> \<open>\<open>^\<close> (no \<open>m\<close> flag in the source)\<close>
  | Eos                   \<comment> \<open>\<open>$\<close>\<close>
  | WordB                 \<comment> \<open>\<open>\b\<close>\<close>

record flags =
  ignoreCase :: bool      \<comment> \<open>the \<open>i\<close> flag\<close>
  dotAll :: bool          \<comment> \<open>the \<open>s\<close> flag\<close>

type_synonym regexp = "flags \<times> re"

fun accepts :: "flags \<Rightarrow> cset \<Rightarrow> nat \<Rightarrow> bool" where
  "accepts fl (Ch c) x = (if ignoreCase fl then canon x = canon c else x = c)"
| "accepts fl Dot x = (dotAll fl \<or> \<not> isLineTerminator x)"
| "accepts fl Ws x = isSpace x"
| "accepts fl Dig x = isDigit x"
| "accepts fl (Rng a b) x =
     (if ignoreCase fl then (\<exists>y \<in> set [a..<Suc b]. canon y = canon x) else a \<le> x \<and> x \<le> b)"
| "accepts fl (OneOf cs) x = (\<exists>c \<in> set cs. accepts fl c x)"
| "accepts fl (NoneOf cs) x = (\<not> (\<exists>c \<in> set cs. accepts fl c x))"

text \<open>
  The matcher is the backtracking machine of the language definition with the continuation
  as a stack: it returns the first way, in priority order, to match the whole stack. The
  state is the code unit before the current position (None at the start of the input), the
  rest of the input and the captures, the latest first.
\<close>

datatype item = R re | Close nat jsstring

type_synonym captures = "(nat \<times> jsstring) list"

type_synonym mstate = "nat option \<times> jsstring \<times> captures"

fun re_size :: "re \<Rightarrow> nat" where
  "re_size (Seq a b) = Suc (re_size a + re_size b)"
| "re_size (Or a b) = Suc (re_size a + re_size b)"
| "re_size (Grp n a) = Suc (Suc (re_size a))"
| "re_size r = 1"

fun item_size :: "item \<Rightarrow> nat" where
  "item_size (R r) = re_size r"
| "item_size (Close n r0) = 1"

definition captured :: "captures \<Rightarrow> nat \<Rightarrow> jsstring" where
  "captured cs n = (case map_of cs n of None \<Rightarrow> [] | Some w \<Rightarrow> w)"

definition boundary :: "nat option \<Rightarrow> jsstring \<Rightarrow> bool" where
  "boundary p xs =
     ((case p of None \<Rightarrow> False | Some c \<Rightarrow> isWordChar c)
        \<noteq> (case xs of [] \<Rightarrow> False | x # _ \<Rightarrow> isWordChar x))"

definition last_of :: "nat option \<Rightarrow> jsstring \<Rightarrow> nat option" where
  "last_of p w = (if w = [] then p else Some (last w))"

function exec :: "flags \<Rightarrow> item list \<Rightarrow> nat option \<Rightarrow> jsstring \<Rightarrow> captures \<Rightarrow> mstate option" where
  "exec fl [] p xs cs = Some (p, xs, cs)"
| "exec fl (Close n r0 # k) p xs cs =
     exec fl k p xs ((n, take (length r0 - length xs) r0) # cs)"
| "exec fl (R Eps # k) p xs cs = exec fl k p xs cs"
| "exec fl (R (One c) # k) p [] cs = None"
| "exec fl (R (One c) # k) p (x # xs) cs =
     (if accepts fl c x then exec fl k (Some x) xs cs else None)"
| "exec fl (R (Seq a b) # k) p xs cs = exec fl (R a # R b # k) p xs cs"
| "exec fl (R (Or a b) # k) p xs cs =
     (case exec fl (R a # k) p xs cs of
        Some r \<Rightarrow> Some r
      | None \<Rightarrow> exec fl (R b # k) p xs cs)"
| "exec fl (R (Star c) # k) p [] cs = exec fl k p [] cs"
| "exec fl (R (Star c) # k) p (x # xs) cs =
     (if accepts fl c x
      then (case exec fl (R (Star c) # k) (Some x) xs cs of
              Some r \<Rightarrow> Some r
            | None \<Rightarrow> exec fl k p (x # xs) cs)
      else exec fl k p (x # xs) cs)"
| "exec fl (R (StarLazy c) # k) p [] cs = exec fl k p [] cs"
| "exec fl (R (StarLazy c) # k) p (x # xs) cs =
     (case exec fl k p (x # xs) cs of
        Some r \<Rightarrow> Some r
      | None \<Rightarrow> if accepts fl c x then exec fl (R (StarLazy c) # k) (Some x) xs cs else None)"
| "exec fl (R (Grp n a) # k) p xs cs = exec fl (R a # Close n xs # k) p xs cs"
| "exec fl (R (Bref n) # k) p xs cs =
     (let w = captured cs n
      in if length w \<le> length xs
            \<and> (if ignoreCase fl then map canon (take (length w) xs) = map canon w
                else take (length w) xs = w)
         then exec fl k (last_of p (take (length w) xs)) (drop (length w) xs) cs
         else None)"
| "exec fl (R Bos # k) p xs cs = (if p = None then exec fl k p xs cs else None)"
| "exec fl (R Eos # k) p xs cs = (if xs = [] then exec fl k p xs cs else None)"
| "exec fl (R WordB # k) p xs cs = (if boundary p xs then exec fl k p xs cs else None)"
  by pat_completeness auto
termination
  by (relation "measures [\<lambda>(fl, k, p, xs, cs). length xs, \<lambda>(fl, k, p, xs, cs). sum_list (map item_size k)]")
     auto


text \<open>
  A match: the text before it, the matched text, the captures, and where the input goes on.
  \<open>search\<close> is one run of a pattern without the \<open>g\<close> flag (\<open>s.match(r)\<close>,
  \<open>r.test(s)\<close>): the leftmost start at which the pattern matches.
\<close>

record rmatch =
  before :: jsstring
  matched :: jsstring
  groups :: captures
  prev_after :: "nat option"
  rest_after :: jsstring

fun search_from :: "regexp \<Rightarrow> jsstring \<Rightarrow> nat option \<Rightarrow> jsstring \<Rightarrow> rmatch option" where
  "search_from r skipped p [] =
     (case exec (fst r) [R (snd r)] p [] [] of
        Some (p', xs', cs) \<Rightarrow>
          Some \<lparr>before = rev skipped, matched = [], groups = cs, prev_after = p', rest_after = xs'\<rparr>
      | None \<Rightarrow> None)"
| "search_from r skipped p (x # xs) =
     (case exec (fst r) [R (snd r)] p (x # xs) [] of
        Some (p', xs', cs) \<Rightarrow>
          Some \<lparr>before = rev skipped, matched = take (Suc (length xs) - length xs') (x # xs),
                groups = cs, prev_after = p', rest_after = xs'\<rparr>
      | None \<Rightarrow> search_from r (x # skipped) (Some x) xs)"

definition search :: "regexp \<Rightarrow> jsstring \<Rightarrow> rmatch option" where
  "search r s = search_from r [] None s"

text \<open>\<open>r.test(s)\<close>, and the group lookup \<open>match.groups?.name\<close> (None for undefined).\<close>

definition test :: "regexp \<Rightarrow> jsstring \<Rightarrow> bool" where
  "test r s = (case search r s of None \<Rightarrow> False | Some m \<Rightarrow> True)"

definition group :: "rmatch \<Rightarrow> nat \<Rightarrow> jsstring option" where
  "group m n = map_of (groups m) n"

text \<open>
  \<open>s.matchAll(r)\<close> for a pattern with the \<open>g\<close> flag: the successive matches, each search
  starting where the last match ended, one code unit further after an empty match.
\<close>

function matchAll_from :: "regexp \<Rightarrow> nat option \<Rightarrow> jsstring \<Rightarrow> rmatch list" where
  "matchAll_from r p s =
     (case search_from r [] p s of
        None \<Rightarrow> []
      | Some m \<Rightarrow>
          m # (if matched m \<noteq> [] \<and> length (rest_after m) < length s
               then matchAll_from r (prev_after m) (rest_after m)
               else (case rest_after m of
                       [] \<Rightarrow> []
                     | x # xs \<Rightarrow> if length xs < length s then matchAll_from r (Some x) xs else [])))"
  by pat_completeness auto
termination
  by (relation "measure (\<lambda>(r, p, s). length s)") auto

definition matchAll :: "regexp \<Rightarrow> jsstring \<Rightarrow> rmatch list" where
  "matchAll r s = matchAll_from r None s"

text \<open>\<open>s.replace(r, "")\<close> for a pattern with the \<open>g\<close> flag: what lies between the matches.\<close>

function remove_all_from :: "regexp \<Rightarrow> nat option \<Rightarrow> jsstring \<Rightarrow> jsstring" where
  "remove_all_from r p s =
     (case search_from r [] p s of
        None \<Rightarrow> s
      | Some m \<Rightarrow>
          before m @ (if matched m \<noteq> [] \<and> length (rest_after m) < length s
               then remove_all_from r (prev_after m) (rest_after m)
               else (case rest_after m of
                       [] \<Rightarrow> []
                     | x # xs \<Rightarrow>
                         if length xs < length s then x # remove_all_from r (Some x) xs else x # xs)))"
  by pat_completeness auto
termination
  by (relation "measure (\<lambda>(r, p, s). length s)") auto

definition remove_all :: "regexp \<Rightarrow> jsstring \<Rightarrow> jsstring" where
  "remove_all r s = remove_all_from r None s"

text \<open>\<open>s.replace(r, "")\<close> without the \<open>g\<close> flag removes the first match only.\<close>

definition remove_first :: "regexp \<Rightarrow> jsstring \<Rightarrow> jsstring" where
  "remove_first r s =
     (case search r s of None \<Rightarrow> s | Some m \<Rightarrow> before m @ rest_after m)"

subsection \<open>Writing patterns\<close>

definition cat :: "re list \<Rightarrow> re" where
  "cat rs = foldr Seq rs Eps"

definition chr :: "char \<Rightarrow> cset" where
  "chr c = Ch (of_char c)"

definition lit :: "string \<Rightarrow> re" where
  "lit s = cat (map (\<lambda>c. One (chr c)) s)"

definition ulit :: "nat list \<Rightarrow> re" where
  "ulit s = cat (map (\<lambda>c. One (Ch c)) s)"

definition Plus :: "cset \<Rightarrow> re" where
  "Plus c = Seq (One c) (Star c)"

definition Opt :: "re \<Rightarrow> re" where
  "Opt r = Or r Eps"

fun alts :: "re list \<Rightarrow> re" where
  "alts [] = Eps"
| "alts [r] = r"
| "alts (r # rs) = Or r (alts rs)"

definition fl_none :: flags where
  "fl_none = \<lparr>ignoreCase = False, dotAll = False\<rparr>"

definition fl_i :: flags where
  "fl_i = \<lparr>ignoreCase = True, dotAll = False\<rparr>"

definition fl_is :: flags where
  "fl_is = \<lparr>ignoreCase = True, dotAll = True\<rparr>"

text \<open>The classes \<open>['"]\<close>, \<open>[^'"]\<close>, \<open>[^>]\<close> and \<open>[^<]\<close>.\<close>

definition quote :: cset where
  "quote = OneOf [Ch 39, Ch 34]"

definition nquote :: cset where
  "nquote = NoneOf [Ch 39, Ch 34]"

definition ngt :: cset where
  "ngt = NoneOf [chr CHR ''>'']"

definition nlt :: cset where
  "nlt = NoneOf [chr CHR ''<'']"

section \<open>The platform\<close>

text \<open>
  What \<open>src/index.ts\<close> takes from its runtime is a parameter of the model: the
  \<open>URL\<close> class, the serializer behind \<open>URLSearchParams\<close> and \<open>fetch\<close>. A parsed URL
  is the record of the getters that the program reads; \<open>href_head\<close> is its serialization
  up to the end of the path and \<open>href_tail\<close> the fragment part of that serialization.
\<close>

record url =
  url_origin :: jsstring
  url_pathname :: jsstring
  url_search :: jsstring
  url_hash :: jsstring
  url_searchParams :: "(jsstring \<times> jsstring) list"
  href_head :: jsstring
  href_tail :: jsstring

record platform =
  URL_parse :: "jsstring \<Rightarrow> jsstring + url"
    \<comment> \<open>\<open>new URL(url)\<close>; \<open>Inl\<close> the message of the error thrown\<close>
  URL_resolve :: "jsstring \<Rightarrow> jsstring \<Rightarrow> jsstring + jsstring"
    \<comment> \<open>\<open>new URL(href, baseUrl).href\<close>; \<open>Inl\<close> the message of the error thrown\<close>
  urlencoded :: "(jsstring \<times> jsstring) list \<Rightarrow> jsstring"
    \<comment> \<open>the application/x-www-form-urlencoded serializer\<close>
  fetch_head :: "jsstring \<Rightarrow> bool option"
    \<comment> \<open>\<open>fetch(url, {method: "HEAD"})\<close>: \<open>response.ok\<close>, or None when it rejects or is aborted\<close>

text \<open>\<open>URLSearchParams.get\<close> and \<open>URLSearchParams.set\<close>, as the URL standard defines them.\<close>

fun params_get :: "(jsstring \<times> jsstring) list \<Rightarrow> jsstring \<Rightarrow> jsstring option" where
  "params_get [] name = None"
| "params_get ((k, v) # ps) name = (if k = name then Some v else params_get ps name)"

fun params_set :: "(jsstring \<times> jsstring) list \<Rightarrow> jsstring \<Rightarrow> jsstring \<Rightarrow> (jsstring \<times> jsstring) list" where
  "params_set [] name val = [(name, val)]"
| "params_set ((k, v) # ps) name val =
     (if k = name then (name, val) # filter (\<lambda>kv. fst kv \<noteq> name) ps
      else (k, v) # params_set ps name val)"

text \<open>\<open>urlObject.toString()\<close> once the parameters were updated to \<open>ps\<close>.\<close>

definition url_toString :: "platform \<Rightarrow> url \<Rightarrow> (jsstring \<times> jsstring) list \<Rightarrow> jsstring" where
  "url_toString P u ps =
     (let q = urlencoded P ps
      in href_head u @ (if q = [] then [] else of_char CHR ''?'' # q) @ href_tail u)"

text \<open>
  \<open>parseInt(value, 10)\<close>: leading blanks, a sign, then the longest run of digits; None is
  NaN. \<open>String(n)\<close> is the decimal numeral. A Number is an integer here, which is what it
  holds below \<open>2^53\<close>; the sign of the result, and so every branch taken, is the same for
  any length of digits.
\<close>

definition digits_value :: "jsstring \<Rightarrow> nat" where
  "digits_value ds = foldl (\<lambda>a d. 10 * a + (d - 48)) 0 ds"

definition parseInt10 :: "jsstring \<Rightarrow> int option" where
  "parseInt10 v =
     (let s = dropWhile isSpace v;
          neg = (case s of [] \<Rightarrow> False | c # _ \<Rightarrow> c = of_char CHR ''-'');
          t = (case s of [] \<Rightarrow> [] | c # r \<Rightarrow>
                 if c = of_char CHR ''-'' \<or> c = of_char CHR ''+'' then r else s);
          ds = takeWhile isDigit t
      in if ds = [] then None
         else Some (if neg then - int (digits_value ds) else int (digits_value ds)))"

function digits :: "nat \<Rightarrow> jsstring" where
  "digits n = (if n < 10 then [48 + n] else digits (n div 10) @ [48 + n mod 10])"
  by pat_completeness auto
termination
  by (relation "measure id") auto

definition String_of :: "int \<Rightarrow> jsstring" where
  "String_of i = (if i < 0 then of_char CHR ''-'' # digits (nat (- i)) else digits (nat i))"

section \<open>The program\<close>

subsection \<open>Types and options\<close>

datatype Method = M_rel | M_pagination | M_text | M_className | M_aria_label | M_alt

datatype direction = Next | Prev

datatype level = Warn | Error

type_synonym logcall = "level \<times> jsstring"

text \<open>
  \<open>BaseOptions\<close> and \<open>FindNextOptions\<close>; an absent options object is the record with
  every field absent. \<open>logger\<close> says whether a logger is configured: the calls it receives
  are the second component of every result. \<open>classNameRegex\<close> is the caller's pattern as
  the predicate that its \<open>test\<close> computes.
\<close>

record options =
  logger :: bool
  timeout :: "nat option"
  verifyExists :: "bool option"
  methods :: "Method list option"
  classNameRegex :: "(jsstring \<Rightarrow> bool) option"

type_synonym result = "jsstring option \<times> logcall list"

definition log_call :: "options \<Rightarrow> level \<Rightarrow> jsstring \<Rightarrow> logcall list" where
  "log_call opts lv msg = (if logger opts then [(lv, msg)] else [])"

text \<open>
  \<open>const u = first; if (u) { return u; } rest\<close>: the logger calls of \<open>rest\<close> happen only
  when \<open>first\<close> gave nothing truthy.
\<close>

definition attempt :: "result \<Rightarrow> result \<Rightarrow> result" where
  "attempt first rest =
     (if truthy (fst first) then first else (fst rest, snd first @ snd rest))"

subsection \<open>REGEX\<close>

definition eq :: re where
  "eq = cat [Star Ws, One (chr CHR ''=''), Star Ws]"

fun REL :: "direction \<Rightarrow> regexp" where
  "REL Next = (fl_i, cat [lit ''rel'', eq, Grp 1 (One quote), StarLazy nquote,
      WordB, lit ''next'', WordB, StarLazy nquote, Bref 1])"
| "REL Prev = (fl_i, cat [lit ''rel'', eq, Grp 1 (One quote), StarLazy nquote,
      WordB, Grp 2 (Or (lit ''prev'') (lit ''previous'')), WordB, StarLazy nquote, Bref 1])"

fun TEXT :: "direction \<Rightarrow> regexp" where
  "TEXT Next = (fl_i, cat [Bos, Star Ws,
      Grp 1 (alts [
        Grp 2 (alts [cat [Grp 3 (lit ''Next''), Star Ws, Opt (Grp 4 (lit ''page''))],
                     lit ''older'', lit ''forward'']),
        Grp 5 (cat [Grp 6 (Or (ulit [0x6B21]) (ulit [0x3064, 0x304E])),
                    Opt (Grp 7 (ulit [0x306E, 0x30DA, 0x30FC, 0x30B8])),
                    Opt (Grp 8 (ulit [0x3078]))]),
        Grp 9 (cat [Grp 10 (Or (ulit [0x4E0B]) (ulit [0x540E])), Star Ws,
                    Opt (Grp 11 (ulit [0x4E00])),
                    Grp 12 (Or (ulit [0x9875]) (ulit [0x9801]))]),
        Grp 13 (ulit [0xB2E4, 0xC74C]),
        ulit [0xBB],
        lit ''>'',
        ulit [0x2192]]),
      Star Ws, Star (chr CHR ''>''), Eos])"
| "TEXT Prev = (fl_i, cat [Bos, Star Ws, Star (chr CHR ''<''),
      Grp 1 (alts [
        Grp 2 (alts [cat [Grp 3 (Or (lit ''Prev'') (lit ''Previous'')), Star Ws,
                          Opt (Grp 4 (lit ''page''))],
                     lit ''older'', lit ''back'']),
        Grp 5 (cat [Grp 6 (ulit [0x524D]),
                    Opt (Grp 7 (ulit [0x306E, 0x30DA, 0x30FC, 0x30B8])),
                    Opt (Grp 8 (ulit [0x3078]))]),
        Grp 9 (cat [Grp 10 (Or (ulit [0x4E0A]) (ulit [0x524D])), Star Ws,
                    Opt (Grp 11 (ulit [0x4E00])),
                    Grp 12 (Or (ulit [0x9875]) (ulit [0x9801]))]),
        Grp 13 (ulit [0xC774, 0xC804]),
        ulit [0xAB],
        lit ''<'',
        ulit [0x2190]]),
      Star Ws, Eos])"

fun CLASS_NAME :: "direction \<Rightarrow> regexp" where
  "CLASS_NAME Next = (fl_i, lit ''next'')"
| "CLASS_NAME Prev = (fl_i, Or (lit ''prev'') (lit ''previous''))"

text \<open>
  \<open><li[^>]+class\s*=\s*['"][^'"]*(?:current|active)[^'"]*['"][^>]*>\<close>, the list item
  marked current, and the anchor start \<open><a\s+(?<attributes>[^>]+)>\<close>.
\<close>

definition li_current :: re where
  "li_current = cat [lit ''<li'', Plus ngt, lit ''class'', eq, One quote, Star nquote,
      Or (lit ''current'') (lit ''active''), Star nquote, One quote, Star ngt, lit ''>'']"

definition a_start :: re where
  "a_start = cat [lit ''<a'', Plus Ws, Grp 1 (Plus ngt), lit ''>'']"

fun PAGINATION_LI :: "direction \<Rightarrow> regexp" where
  "PAGINATION_LI Next = (fl_is, cat [li_current, StarLazy Dot, lit ''</li>'', Star Ws,
      lit ''<li'', Star ngt, lit ''>'', Star Ws, a_start])"
| "PAGINATION_LI Prev = (fl_is, cat [lit ''<li'', Star ngt, lit ''>'', Star Ws, a_start,
      StarLazy Dot, lit ''</a>'', Star Ws, lit ''</li>'', Star Ws, li_current])"

text \<open>
  \<open>(?:<(?:span|a)[^>]+(?:class\s*=\s*['"](?:current|active)['"]|aria-current\s*=\s*['"]page['"])|strong)\<close>:
  the alternation has two branches, the whole opening tag and the bare word \<open>strong\<close>.
\<close>

definition current_mark :: re where
  "current_mark = Or
     (cat [lit ''<'', Or (lit ''span'') (lit ''a''), Plus ngt,
           Or (cat [lit ''class'', eq, One quote, Or (lit ''current'') (lit ''active''), One quote])
              (cat [lit ''aria-current'', eq, One quote, lit ''page'', One quote])])
     (lit ''strong'')"

fun PAGINATION_FALLBACK :: "direction \<Rightarrow> regexp" where
  "PAGINATION_FALLBACK Next = (fl_i, cat [current_mark, Star Ws, Star nlt, Star Ws,
      lit ''</'', alts [lit ''span'', lit ''a'', lit ''strong''], lit ''>'', Star Ws, a_start])"
| "PAGINATION_FALLBACK Prev = (fl_i, cat [a_start, StarLazy Dot, lit ''</a>'', Star Ws,
      current_mark, Star Ws, Star nlt])"

definition POTENTIAL_LINK_TAGS :: regexp where
  "POTENTIAL_LINK_TAGS = (fl_i, cat [lit ''<'', Or (lit ''a'') (lit ''link''), Plus Ws,
      Grp 1 (StarLazy ngt), lit ''>''])"

definition ANCHOR_TAG :: regexp where
  "ANCHOR_TAG = (fl_is, cat [a_start, Grp 2 (StarLazy Dot), lit ''</a>''])"

definition ANCHOR_TAG_START :: regexp where
  "ANCHOR_TAG_START = (fl_i, a_start)"

definition PAGINATION_CONTAINER :: regexp where
  "PAGINATION_CONTAINER = (fl_i, cat [lit ''<'', alts [lit ''div'', lit ''nav'', lit ''ul''],
      Plus ngt, Or (lit ''class'') (lit ''id''), eq, One quote, Star nquote,
      alts [lit ''pagination'', lit ''pager'', lit ''page-nav''], Star nquote, One quote,
      Star ngt, lit ''>'', Grp 1 (StarLazy (OneOf [Ws, NoneOf [Ws]])),
      lit ''</'', alts [lit ''div'', lit ''nav'', lit ''ul''], lit ''>''])"

definition IMG_TAG :: regexp where
  "IMG_TAG = (fl_i, cat [lit ''<img'', Plus ngt, lit ''>''])"

definition PATH_PAGE_NUMBER :: regexp where
  "PATH_PAGE_NUMBER = (fl_none, cat [Bos,
      Grp 1 (cat [Star Dot, One (OneOf [chr CHR ''/'', chr CHR ''-'', chr CHR ''_''])]),
      Grp 2 (Plus Dig), Eos])"

definition HTML_TAGS :: regexp where
  "HTML_TAGS = (fl_none, cat [lit ''<'', Plus ngt, lit ''>''])"

definition HTML_ENTITIES :: regexp where
  "HTML_ENTITIES = (fl_i, alts [
      cat [lit ''&'', Plus (OneOf [Rng 97 122]), lit '';''],
      cat [lit ''&#'', Plus (OneOf [Rng 48 57]), lit '';''],
      cat [lit ''&#x'', Plus (OneOf [Rng 48 57, Rng 97 102]), lit '';'']])"

text \<open>The pattern \<open>/\/$/\<close> of findUrlByPathSegment.\<close>

definition TRAILING_SLASH :: regexp where
  "TRAILING_SLASH = (fl_none, cat [lit ''/'', Eos])"

subsection \<open>extractAttribute and extractAbsoluteHref\<close>

text \<open>
  The pattern that extractAttribute builds,
  \<open>${attributeName}\s*=\s*(['"])(?<value>[^"']*)\1\<close> with the \<open>i\<close> flag. The names the
  program passes (href, class, id, aria-label, alt) hold no pattern syntax, so the name is
  a literal. The cache of compiled patterns changes no result and is left out.
\<close>

definition attribute_regex :: "string \<Rightarrow> regexp" where
  "attribute_regex attributeName =
     (fl_i, cat [lit attributeName, eq, Grp 1 (One quote),
                 Grp 2 (Star (NoneOf [Ch 34, Ch 39])), Bref 1])"

definition extractAttribute :: "jsstring \<Rightarrow> string \<Rightarrow> jsstring option" where
  "extractAttribute attributes attributeName =
     (case search (attribute_regex attributeName) attributes of
        None \<Rightarrow> None
      | Some m \<Rightarrow> group m 2)"

definition invalid_url_message :: "jsstring \<Rightarrow> jsstring \<Rightarrow> jsstring \<Rightarrow> jsstring" where
  "invalid_url_message href baseUrl message =
     js ''Invalid URL '' @ [39] @ href @ [39] @ js '' for base '' @ [39] @ baseUrl @ [39]
       @ js '': '' @ message"

definition extractAbsoluteHref :: "platform \<Rightarrow> jsstring \<Rightarrow> jsstring \<Rightarrow> options \<Rightarrow> result" where
  "extractAbsoluteHref P attributes baseUrl opts =
     (case extractAttribute attributes ''href'' of
        None \<Rightarrow> (None, [])
      | Some href \<Rightarrow>
          if href = [] then (None, [])
          else (case URL_resolve P href baseUrl of
                  Inr absolute \<Rightarrow> (Some absolute, [])
                | Inl message \<Rightarrow>
                    (None, log_call opts Warn (invalid_url_message href baseUrl message))))"

subsection \<open>The six strategies\<close>

text \<open>Each strategy is its \<open>for\<close> loop over the matches of \<open>html.matchAll\<close>.\<close>

fun rel_loop :: "platform \<Rightarrow> jsstring \<Rightarrow> regexp \<Rightarrow> options \<Rightarrow> rmatch list \<Rightarrow> result" where
  "rel_loop P baseUrl relRegex opts [] = (None, [])"
| "rel_loop P baseUrl relRegex opts (m # ms) =
     (case group m 1 of
        None \<Rightarrow> rel_loop P baseUrl relRegex opts ms
      | Some attributes \<Rightarrow>
          if attributes = [] then rel_loop P baseUrl relRegex opts ms
          else if test relRegex attributes
          then attempt (extractAbsoluteHref P attributes baseUrl opts)
                       (rel_loop P baseUrl relRegex opts ms)
          else rel_loop P baseUrl relRegex opts ms)"

definition findLinkByRel :: "platform \<Rightarrow> jsstring \<Rightarrow> jsstring \<Rightarrow> regexp \<Rightarrow> options \<Rightarrow> result" where
  "findLinkByRel P html baseUrl relRegex opts =
     rel_loop P baseUrl relRegex opts (matchAll POTENTIAL_LINK_TAGS html)"

text \<open>
  One rule of the pagination strategy inside one container: \<open>containerHtml.match(regex)\<close>,
  a pattern without the \<open>g\<close> flag, so its first match only.
\<close>

definition container_rule :: "platform \<Rightarrow> jsstring \<Rightarrow> regexp \<Rightarrow> options \<Rightarrow> jsstring \<Rightarrow> result" where
  "container_rule P baseUrl regex opts containerHtml =
     (case search regex containerHtml of
        None \<Rightarrow> (None, [])
      | Some m \<Rightarrow>
          (case group m 1 of
             None \<Rightarrow> (None, [])
           | Some attributes \<Rightarrow>
               if attributes = [] then (None, [])
               else extractAbsoluteHref P attributes baseUrl opts))"

fun pagination_loop ::
  "platform \<Rightarrow> jsstring \<Rightarrow> regexp \<Rightarrow> regexp \<Rightarrow> options \<Rightarrow> rmatch list \<Rightarrow> result" where
  "pagination_loop P baseUrl liRegex fallbackRegex opts [] = (None, [])"
| "pagination_loop P baseUrl liRegex fallbackRegex opts (m # ms) =
     (case group m 1 of
        None \<Rightarrow> pagination_loop P baseUrl liRegex fallbackRegex opts ms
      | Some containerHtml \<Rightarrow>
          if containerHtml = [] then pagination_loop P baseUrl liRegex fallbackRegex opts ms
          else attempt (container_rule P baseUrl liRegex opts containerHtml)
                 (attempt (container_rule P baseUrl fallbackRegex opts containerHtml)
                    (pagination_loop P baseUrl liRegex fallbackRegex opts ms)))"

definition findLinkByPaginationStructure ::
  "platform \<Rightarrow> jsstring \<Rightarrow> jsstring \<Rightarrow> regexp \<Rightarrow> regexp \<Rightarrow> options \<Rightarrow> result" where
  "findLinkByPaginationStructure P html baseUrl liRegex fallbackRegex opts =
     pagination_loop P baseUrl liRegex fallbackRegex opts (matchAll PAGINATION_CONTAINER html)"

definition cleanText :: "jsstring \<Rightarrow> jsstring" where
  "cleanText innerText = trim (remove_all HTML_ENTITIES (remove_all HTML_TAGS innerText))"

fun text_loop :: "platform \<Rightarrow> jsstring \<Rightarrow> regexp \<Rightarrow> options \<Rightarrow> rmatch list \<Rightarrow> result" where
  "text_loop P baseUrl textRegex opts [] = (None, [])"
| "text_loop P baseUrl textRegex opts (m # ms) =
     (case (group m 1, group m 2) of
        (Some attributes, Some innerText) \<Rightarrow>
          if attributes = [] \<or> innerText = [] then text_loop P baseUrl textRegex opts ms
          else if cleanText innerText = [] then text_loop P baseUrl textRegex opts ms
          else if test textRegex (cleanText innerText)
          then attempt (extractAbsoluteHref P attributes baseUrl opts)
                       (text_loop P baseUrl textRegex opts ms)
          else text_loop P baseUrl textRegex opts ms
      | _ \<Rightarrow> text_loop P baseUrl textRegex opts ms)"

definition findLinkByText :: "platform \<Rightarrow> jsstring \<Rightarrow> jsstring \<Rightarrow> regexp \<Rightarrow> options \<Rightarrow> result" where
  "findLinkByText P html baseUrl textRegex opts =
     text_loop P baseUrl textRegex opts (matchAll ANCHOR_TAG html)"

text \<open>
  The condition of findLinkByClassName:
  \<open>(classAttr && (classNameRegex ?? defaultRegex).test(classAttr)) || (idAttr && defaultRegex.test(idAttr))\<close>.
\<close>

definition class_or_id_matches :: "regexp \<Rightarrow> (jsstring \<Rightarrow> bool) option \<Rightarrow> jsstring \<Rightarrow> bool" where
  "class_or_id_matches defaultRegex classNameRegex' attributes =
     (let classAttr = extractAttribute attributes ''class'';
          idAttr = extractAttribute attributes ''id''
      in (truthy classAttr \<and>
            (case classNameRegex' of
               None \<Rightarrow> test defaultRegex (case classAttr of None \<Rightarrow> [] | Some c \<Rightarrow> c)
             | Some custom \<Rightarrow> custom (case classAttr of None \<Rightarrow> [] | Some c \<Rightarrow> c)))
         \<or> (truthy idAttr \<and> test defaultRegex (case idAttr of None \<Rightarrow> [] | Some i \<Rightarrow> i)))"

fun className_loop ::
  "platform \<Rightarrow> jsstring \<Rightarrow> regexp \<Rightarrow> (jsstring \<Rightarrow> bool) option \<Rightarrow> options \<Rightarrow> rmatch list \<Rightarrow> result" where
  "className_loop P baseUrl defaultRegex classNameRegex' opts [] = (None, [])"
| "className_loop P baseUrl defaultRegex classNameRegex' opts (m # ms) =
     (case group m 1 of
        None \<Rightarrow> className_loop P baseUrl defaultRegex classNameRegex' opts ms
      | Some attributes \<Rightarrow>
          if attributes = [] then className_loop P baseUrl defaultRegex classNameRegex' opts ms
          else if class_or_id_matches defaultRegex classNameRegex' attributes
          then attempt (extractAbsoluteHref P attributes baseUrl opts)
                       (className_loop P baseUrl defaultRegex classNameRegex' opts ms)
          else className_loop P baseUrl defaultRegex classNameRegex' opts ms)"

definition findLinkByClassName ::
  "platform \<Rightarrow> jsstring \<Rightarrow> jsstring \<Rightarrow> regexp \<Rightarrow> (jsstring \<Rightarrow> bool) option \<Rightarrow> options \<Rightarrow> result" where
  "findLinkByClassName P html baseUrl defaultRegex classNameRegex' opts =
     className_loop P baseUrl defaultRegex classNameRegex' opts (matchAll ANCHOR_TAG_START html)"

definition ariaLabel_matches :: "regexp \<Rightarrow> jsstring \<Rightarrow> bool" where
  "ariaLabel_matches textRegex attributes =
     (case extractAttribute attributes ''aria-label'' of
        None \<Rightarrow> False
      | Some ariaLabelAttr \<Rightarrow> ariaLabelAttr \<noteq> [] \<and> test textRegex ariaLabelAttr)"

fun ariaLabel_loop :: "platform \<Rightarrow> jsstring \<Rightarrow> regexp \<Rightarrow> options \<Rightarrow> rmatch list \<Rightarrow> result" where
  "ariaLabel_loop P baseUrl textRegex opts [] = (None, [])"
| "ariaLabel_loop P baseUrl textRegex opts (m # ms) =
     (case group m 1 of
        None \<Rightarrow> ariaLabel_loop P baseUrl textRegex opts ms
      | Some attributes \<Rightarrow>
          if attributes = [] then ariaLabel_loop P baseUrl textRegex opts ms
          else if ariaLabel_matches textRegex attributes
          then attempt (extractAbsoluteHref P attributes baseUrl opts)
                       (ariaLabel_loop P baseUrl textRegex opts ms)
          else ariaLabel_loop P baseUrl textRegex opts ms)"

definition findLinkByAriaLabel :: "platform \<Rightarrow> jsstring \<Rightarrow> jsstring \<Rightarrow> regexp \<Rightarrow> options \<Rightarrow> result" where
  "findLinkByAriaLabel P html baseUrl textRegex opts =
     ariaLabel_loop P baseUrl textRegex opts (matchAll ANCHOR_TAG_START html)"

definition alt_matches :: "regexp \<Rightarrow> jsstring \<Rightarrow> bool" where
  "alt_matches textRegex imgTag =
     (case extractAttribute imgTag ''alt'' of
        None \<Rightarrow> False
      | Some altText \<Rightarrow> altText \<noteq> [] \<and> test textRegex (trim altText))"

text \<open>The inner loop of findLinkByAltText over the \<open>img\<close> tags of one anchor.\<close>

fun img_loop :: "platform \<Rightarrow> jsstring \<Rightarrow> regexp \<Rightarrow> options \<Rightarrow> jsstring \<Rightarrow> rmatch list \<Rightarrow> result \<Rightarrow> result" where
  "img_loop P baseUrl textRegex opts attributes [] rest = rest"
| "img_loop P baseUrl textRegex opts attributes (i # imgs) rest =
     (if alt_matches textRegex (matched i)
      then attempt (extractAbsoluteHref P attributes baseUrl opts)
                   (img_loop P baseUrl textRegex opts attributes imgs rest)
      else img_loop P baseUrl textRegex opts attributes imgs rest)"

fun alt_loop :: "platform \<Rightarrow> jsstring \<Rightarrow> regexp \<Rightarrow> options \<Rightarrow> rmatch list \<Rightarrow> result" where
  "alt_loop P baseUrl textRegex opts [] = (None, [])"
| "alt_loop P baseUrl textRegex opts (m # ms) =
     (case (group m 1, group m 2) of
        (Some attributes, Some innerHtml) \<Rightarrow>
          if attributes = [] \<or> innerHtml = [] then alt_loop P baseUrl textRegex opts ms
          else img_loop P baseUrl textRegex opts attributes (matchAll IMG_TAG innerHtml)
                 (alt_loop P baseUrl textRegex opts ms)
      | _ \<Rightarrow> alt_loop P baseUrl textRegex opts ms)"

definition findLinkByAltText :: "platform \<Rightarrow> jsstring \<Rightarrow> jsstring \<Rightarrow> regexp \<Rightarrow> options \<Rightarrow> result" where
  "findLinkByAltText P html baseUrl textRegex opts =
     alt_loop P baseUrl textRegex opts (matchAll ANCHOR_TAG html)"

subsection \<open>findLink, findNext, findPrev\<close>

definition default_methods :: "Method list" where
  "default_methods = [M_rel, M_pagination, M_text, M_className, M_aria_label, M_alt]"

text \<open>The dispatch table \<open>strategies\<close> of findLink.\<close>

fun strategies :: "platform \<Rightarrow> jsstring \<Rightarrow> jsstring \<Rightarrow> direction \<Rightarrow> options \<Rightarrow> Method \<Rightarrow> result" where
  "strategies P html baseUrl d opts M_rel = findLinkByRel P html baseUrl (REL d) opts"
| "strategies P html baseUrl d opts M_pagination =
     findLinkByPaginationStructure P html baseUrl (PAGINATION_LI d) (PAGINATION_FALLBACK d) opts"
| "strategies P html baseUrl d opts M_text = findLinkByText P html baseUrl (TEXT d) opts"
| "strategies P html baseUrl d opts M_className =
     findLinkByClassName P html baseUrl (CLASS_NAME d) (classNameRegex opts) opts"
| "strategies P html baseUrl d opts M_aria_label = findLinkByAriaLabel P html baseUrl (TEXT d) opts"
| "strategies P html baseUrl d opts M_alt = findLinkByAltText P html baseUrl (TEXT d) opts"

fun methods_loop :: "platform \<Rightarrow> jsstring \<Rightarrow> jsstring \<Rightarrow> direction \<Rightarrow> options \<Rightarrow> Method list \<Rightarrow> result" where
  "methods_loop P html baseUrl d opts [] = (None, [])"
| "methods_loop P html baseUrl d opts (m # ms) =
     attempt (strategies P html baseUrl d opts m) (methods_loop P html baseUrl d opts ms)"

text \<open>\<open>options?.methods ?? [...]\<close>.\<close>

definition effective_methods :: "options \<Rightarrow> Method list" where
  "effective_methods opts = (case methods opts of None \<Rightarrow> default_methods | Some ms \<Rightarrow> ms)"

definition findLink :: "platform \<Rightarrow> jsstring \<Rightarrow> jsstring \<Rightarrow> direction \<Rightarrow> options \<Rightarrow> result" where
  "findLink P html baseUrl d opts =
     methods_loop P html baseUrl d opts (effective_methods opts)"

definition findNext :: "platform \<Rightarrow> jsstring \<Rightarrow> jsstring \<Rightarrow> options \<Rightarrow> result" where
  "findNext P html baseUrl opts = findLink P html baseUrl Next opts"

definition findPrev :: "platform \<Rightarrow> jsstring \<Rightarrow> jsstring \<Rightarrow> options \<Rightarrow> result" where
  "findPrev P html baseUrl opts = findLink P html baseUrl Prev opts"

subsection \<open>Inference from the URL\<close>

text \<open>
  urlExists: \<open>response.ok\<close> of the HEAD request, false when the request fails or the
  timeout aborts it. One answer for each URL stands for the network.
\<close>

definition urlExists :: "platform \<Rightarrow> jsstring \<Rightarrow> bool" where
  "urlExists P u = (case fetch_head P u of None \<Rightarrow> False | Some ok \<Rightarrow> ok)"

definition verified :: "platform \<Rightarrow> options \<Rightarrow> jsstring \<Rightarrow> bool" where
  "verified P opts newUrl = (verifyExists opts = Some False \<or> urlExists P newUrl)"

text \<open>The loop \<open>for (const key of ["page", "p", "index"])\<close> of findUrlByQueryParam.\<close>

fun find_target :: "(jsstring \<times> jsstring) list \<Rightarrow> jsstring list \<Rightarrow> (jsstring \<times> int) option" where
  "find_target params [] = None"
| "find_target params (key # keys) =
     (case params_get params key of
        None \<Rightarrow> find_target params keys
      | Some v \<Rightarrow>
          if v = [] then find_target params keys
          else (case parseInt10 v of
                  None \<Rightarrow> find_target params keys
                | Some num \<Rightarrow> Some (key, num)))"

definition page_keys :: "jsstring list" where
  "page_keys = [js ''page'', js ''p'', js ''index'']"

definition adjacent :: "direction \<Rightarrow> int \<Rightarrow> int" where
  "adjacent d n = (if d = Next then n + 1 else n - 1)"

definition findUrlByQueryParam :: "platform \<Rightarrow> jsstring \<Rightarrow> direction \<Rightarrow> options \<Rightarrow> result" where
  "findUrlByQueryParam P u d opts =
     (case URL_parse P u of
        Inl message \<Rightarrow>
          (None, log_call opts Warn (js ''Invalid URL provided to findUrlByQueryParam: '' @ message))
      | Inr urlObject \<Rightarrow>
          (case find_target (url_searchParams urlObject) page_keys of
             None \<Rightarrow> (None, [])
           | Some (targetKey, currentValue) \<Rightarrow>
               let newNumber = adjacent d currentValue
               in if newNumber > 0
                  then let newUrl = url_toString P urlObject
                             (params_set (url_searchParams urlObject) targetKey (String_of newNumber))
                       in if verified P opts newUrl then (Some newUrl, []) else (None, [])
                  else (None, [])))"

definition findUrlByPathSegment :: "platform \<Rightarrow> jsstring \<Rightarrow> direction \<Rightarrow> options \<Rightarrow> result" where
  "findUrlByPathSegment P u d opts =
     (case URL_parse P u of
        Inl message \<Rightarrow>
          (None, log_call opts Warn (js ''Invalid URL provided to findUrlByPathSegment: '' @ message))
      | Inr urlObject \<Rightarrow>
          (let pathname = remove_first TRAILING_SLASH (url_pathname urlObject)
           in case search PATH_PAGE_NUMBER pathname of
                None \<Rightarrow> (None, [])
              | Some pathMatch \<Rightarrow>
                  (case (group pathMatch 1, group pathMatch 2) of
                     (Some prefix, Some currentNumberStr) \<Rightarrow>
                       if prefix = [] \<or> currentNumberStr = [] then (None, [])
                       else (case parseInt10 currentNumberStr of
                               None \<Rightarrow> (None, [])
                             | Some currentNumber \<Rightarrow>
                                 let newNumber = adjacent d currentNumber
                                 in if newNumber > 0
                                    then let newUrl = url_origin urlObject @ prefix @ String_of newNumber
                                               @ url_search urlObject @ url_hash urlObject
                                         in if verified P opts newUrl then (Some newUrl, []) else (None, [])
                                    else (None, []))
                   | _ \<Rightarrow> (None, []))))"

definition findUrlByPattern :: "platform \<Rightarrow> jsstring \<Rightarrow> direction \<Rightarrow> options \<Rightarrow> result" where
  "findUrlByPattern P u d opts =
     attempt (findUrlByQueryParam P u d opts)
       (attempt (findUrlByPathSegment P u d opts) (None, []))"

definition findNextByUrl :: "platform \<Rightarrow> jsstring \<Rightarrow> options \<Rightarrow> result" where
  "findNextByUrl P u opts = findUrlByPattern P u Next opts"

definition findPrevByUrl :: "platform \<Rightarrow> jsstring \<Rightarrow> options \<Rightarrow> result" where
  "findPrevByUrl P u opts = findUrlByPattern P u Prev opts"

section \<open>A sample platform\<close>

text \<open>
  Concrete runs need concrete answers from the runtime. \<open>sample\<close> answers as the URL
  class does on the inputs used below. A path-absolute reference of lower-case letters,
  digits, \<open>/\<close> and \<open>-\<close> resolves against the base \<open>https://example.com\<close> by appending
  it; every other reference is rejected, as the URL class rejects the two others that
  occur, \<open>http://a b\<close> and \<open>http://invalid url.com\<close>, for the space in the host. The
  parsed URLs are those of the examples; the serializer joins \<open>name=value\<close> pairs, which
  is what it does for names and values of letters and digits; every HEAD request is
  answered with ok.
\<close>

definition plain_ref :: "jsstring \<Rightarrow> bool" where
  "plain_ref href =
     (take 1 href = js ''/'' \<and> take 2 href \<noteq> js ''//''
      \<and> (\<forall>c \<in> set href. (97 \<le> c \<and> c \<le> 122) \<or> isDigit c \<or> c = 47 \<or> c = 45))"

definition sample_resolve :: "jsstring \<Rightarrow> jsstring \<Rightarrow> jsstring + jsstring" where
  "sample_resolve href baseUrl =
     (if baseUrl = js ''https://example.com'' \<and> plain_ref href then Inr (baseUrl @ href)
      else Inl (js ''Invalid URL''))"

fun plain_query :: "(jsstring \<times> jsstring) list \<Rightarrow> jsstring" where
  "plain_query [] = []"
| "plain_query [(k, v)] = k @ js ''='' @ v"
| "plain_query ((k, v) # ps) = k @ js ''='' @ v @ js ''&'' @ plain_query ps"

definition example_url :: "jsstring \<Rightarrow> (jsstring \<times> jsstring) list \<Rightarrow> url" where
  "example_url path ps =
     \<lparr>url_origin = js ''https://example.com'', url_pathname = path,
      url_search = (if ps = [] then [] else js ''?'' @ plain_query ps), url_hash = [],
      url_searchParams = ps, href_head = js ''https://example.com'' @ path, href_tail = []\<rparr>"

definition sample_parse :: "jsstring \<Rightarrow> jsstring + url" where
  "sample_parse u =
     (if u = js ''https://example.com/search?page=2''
      then Inr (example_url (js ''/search'') [(js ''page'', js ''2'')])
      else if u = js ''https://example.com/search?page=1''
      then Inr (example_url (js ''/search'') [(js ''page'', js ''1'')])
      else if u = js ''https://example.com/archive/2''
      then Inr (example_url (js ''/archive/2'') [])
      else if u = js ''https://example.com/archive/5?page=1''
      then Inr (example_url (js ''/archive/5'') [(js ''page'', js ''1'')])
      else if u = js ''https://example.com/list?sort=asc&page=2&tag=x''
      then Inr (example_url (js ''/list'')
                  [(js ''sort'', js ''asc''), (js ''page'', js ''2''), (js ''tag'', js ''x'')])
      else Inl (js ''Invalid URL''))"

definition sample :: platform where
  "sample = \<lparr>URL_parse = sample_parse, URL_resolve = sample_resolve,
              urlencoded = plain_query, fetch_head = (\<lambda>u. Some True)\<rparr>"

definition base :: jsstring where
  "base = js ''https://example.com''"

text \<open>The options of a call that passes a logger and nothing else.\<close>

definition opts0 :: options where
  "opts0 = \<lparr>logger = True, timeout = None, verifyExists = None, methods = None,
            classNameRegex = None\<rparr>"

section \<open>Notions used in the statements\<close>

text \<open>A result that is either nothing or a truthy string.\<close>

definition clean :: "result \<Rightarrow> bool" where
  "clean r = (fst r = None \<or> truthy (fst r))"

text \<open>
  What makes an occurrence qualify structurally in each strategy, before its href is
  looked at, and the attribute text of an occurrence.
\<close>

definition attributes_of :: "rmatch \<Rightarrow> jsstring" where
  "attributes_of m = (case group m 1 of None \<Rightarrow> [] | Some a \<Rightarrow> a)"

definition rel_qualifies :: "regexp \<Rightarrow> rmatch \<Rightarrow> bool" where
  "rel_qualifies relRegex m = (attributes_of m \<noteq> [] \<and> test relRegex (attributes_of m))"

definition text_qualifies :: "regexp \<Rightarrow> rmatch \<Rightarrow> bool" where
  "text_qualifies textRegex m =
     (case group m 2 of
        None \<Rightarrow> False
      | Some innerText \<Rightarrow>
          attributes_of m \<noteq> [] \<and> cleanText innerText \<noteq> []
          \<and> test textRegex (cleanText innerText))"

definition className_qualifies :: "regexp \<Rightarrow> (jsstring \<Rightarrow> bool) option \<Rightarrow> rmatch \<Rightarrow> bool" where
  "className_qualifies defaultRegex custom m =
     (attributes_of m \<noteq> [] \<and> class_or_id_matches defaultRegex custom (attributes_of m))"

definition ariaLabel_qualifies :: "regexp \<Rightarrow> rmatch \<Rightarrow> bool" where
  "ariaLabel_qualifies textRegex m =
     (attributes_of m \<noteq> [] \<and> ariaLabel_matches textRegex (attributes_of m))"

definition alt_qualifies :: "regexp \<Rightarrow> rmatch \<Rightarrow> bool" where
  "alt_qualifies textRegex m =
     (case group m 2 of
        None \<Rightarrow> False
      | Some innerHtml \<Rightarrow>
          attributes_of m \<noteq> [] \<and>
          (\<exists>i \<in> set (matchAll IMG_TAG innerHtml). alt_matches textRegex (matched i)))"

text \<open>The href of an occurrence gives no URL: it is missing, empty or invalid.\<close>

definition unresolved :: "platform \<Rightarrow> jsstring \<Rightarrow> options \<Rightarrow> rmatch \<Rightarrow> bool" where
  "unresolved P baseUrl opts m =
     (\<not> truthy (fst (extractAbsoluteHref P (attributes_of m) baseUrl opts)))"

text \<open>The inner markup of a pagination container.\<close>

definition container_of :: "rmatch \<Rightarrow> jsstring" where
  "container_of m = (case group m 1 of None \<Rightarrow> [] | Some c \<Rightarrow> c)"

text \<open>
  A result whose URL and whose logger calls all come from calls of extractAbsoluteHref.
\<close>

definition from_extract :: "platform \<Rightarrow> jsstring \<Rightarrow> options \<Rightarrow> result \<Rightarrow> bool" where
  "from_extract P baseUrl opts r =
     ((\<forall>u. fst r = Some u \<longrightarrow> (\<exists>a. fst (extractAbsoluteHref P a baseUrl opts) = Some u))
      \<and> (\<forall>c \<in> set (snd r). \<exists>a. c \<in> set (snd (extractAbsoluteHref P a baseUrl opts))))"

text \<open>
  Pages for the concrete runs. In each of the first six the first candidate of one
  strategy has the href \<open>http://a b\<close>, which is no valid URL for its space in the host,
  and the second has the href \<open>/b\<close>.
\<close>

definition page_rel :: jsstring where
  "page_rel = js ''<a rel=\"next\" href=\"http://a b\"><a rel=\"next\" href=\"/b\">''"

definition page_text :: jsstring where
  "page_text = js ''<a href=\"http://a b\">Next</a><a href=\"/b\">Next</a>''"

definition page_class :: jsstring where
  "page_class = js ''<a class=\"next\" href=\"http://a b\"><a class=\"next\" href=\"/b\">''"

definition page_aria :: jsstring where
  "page_aria = js ''<a aria-label=\"Next\" href=\"http://a b\"><a aria-label=\"Next\" href=\"/b\">''"

definition page_alt :: jsstring where
  "page_alt = js ''<a href=\"http://a b\"><img alt=\"Next\"></a><a href=\"/b\"><img alt=\"Next\"></a>''"

definition page_two_pagers :: jsstring where
  "page_two_pagers = js ''<ul id=\"pager\"><li class=\"current\">1</li><li><a href=\"http://a b\">2</a></li></ul><ul id=\"pager\"><li class=\"current\">1</li><li><a href=\"/b\">2</a></li></ul>''"

text \<open>
  One container in which the list-item pattern has two matches: the anchor after the item
  marked current has the invalid href, the anchor after the item marked active has the
  href \<open>/page/4\<close>. \<open>pager_inner\<close> is the inner markup of that container.
\<close>

definition pager_inner :: jsstring where
  "pager_inner = js ''<li class=\"current\">1</li><li><a href=\"http://a b\">2</a></li><li class=\"active\">3</li><li><a href=\"/page/4\">4</a></li>''"

definition page_one_pager :: jsstring where
  "page_one_pager = js ''<ul class=\"pagination\">'' @ pager_inner @ js ''</ul>''"

text \<open>One anchor that is a candidate of the rel strategy and of the text strategy.\<close>

definition page_rel_and_text :: jsstring where
  "page_rel_and_text = js ''<a rel=\"next\" href=\"http://invalid url.com\">Next</a>''"

definition invalid_href :: jsstring where
  "invalid_href = js ''http://invalid url.com''"





section \<open>Properties\<close>

text \<open>Unfolding every definition evaluates a concrete run inside the logic.\<close>

lemmas ev = js_def lit_def ulit_def cat_def chr_def Plus_def Opt_def eq_def quote_def nquote_def
  ngt_def nlt_def fl_i_def fl_is_def fl_none_def canon_def isSpace_def isDigit_def isWordChar_def
  isLineTerminator_def captured_def last_of_def boundary_def search_def test_def group_def
  matchAll_def remove_all_def remove_first_def trim_def attribute_regex_def extractAttribute_def
  extractAbsoluteHref_def invalid_url_message_def log_call_def attempt_def li_current_def
  a_start_def current_mark_def POTENTIAL_LINK_TAGS_def ANCHOR_TAG_def ANCHOR_TAG_START_def
  PAGINATION_CONTAINER_def IMG_TAG_def HTML_TAGS_def HTML_ENTITIES_def PATH_PAGE_NUMBER_def
  TRAILING_SLASH_def findLinkByRel_def container_rule_def findLinkByPaginationStructure_def
  cleanText_def findLinkByText_def class_or_id_matches_def findLinkByClassName_def
  ariaLabel_matches_def findLinkByAriaLabel_def alt_matches_def findLinkByAltText_def
  default_methods_def effective_methods_def findLink_def findNext_def findPrev_def
  urlExists_def verified_def page_keys_def adjacent_def findUrlByQueryParam_def
  findUrlByPathSegment_def findUrlByPattern_def findNextByUrl_def findPrevByUrl_def
  url_toString_def parseInt10_def digits_value_def String_of_def
  plain_ref_def sample_resolve_def example_url_def sample_parse_def sample_def base_def opts0_def
  Let_def

lemmas pages = page_rel_def page_text_def page_class_def page_aria_def page_alt_def
  page_two_pagers_def pager_inner_def page_one_pager_def page_rel_and_text_def invalid_href_def

lemmas qualifies = attributes_of_def rel_qualifies_def text_qualifies_def className_qualifies_def
  ariaLabel_qualifies_def alt_qualifies_def unresolved_def container_of_def

subsection \<open>Sequencing\<close>

lemma attempt_nothing [simp]: "attempt (None, []) r = r"
  by (simp add: attempt_def)

lemma attempt_truthy: "truthy (fst a) \<Longrightarrow> attempt a r = a"
  by (simp add: attempt_def)

lemma attempt_falsy: "\<not> truthy (fst a) \<Longrightarrow> attempt a r = (fst r, snd a @ snd r)"
  by (simp add: attempt_def)

lemma clean_nothing [simp]: "clean (None, l)"
  by (simp add: clean_def)

lemma clean_attempt: "clean r \<Longrightarrow> clean (attempt a r)"
  by (auto simp: clean_def attempt_def)

lemma clean_Some: "clean r \<Longrightarrow> fst r = Some u \<Longrightarrow> truthy (fst r)"
  by (auto simp: clean_def)

subsection \<open>Every strategy returns nothing or a truthy string\<close>

lemma clean_rel_loop: "clean (rel_loop P b re opts ms)"
  by (induction ms) (auto simp: clean_attempt split: option.splits)

lemma clean_pagination_loop: "clean (pagination_loop P b li fb opts ms)"
  by (induction ms) (auto simp: clean_attempt split: option.splits)

lemma clean_text_loop: "clean (text_loop P b re opts ms)"
  by (induction ms) (auto simp: clean_attempt split: option.splits)

lemma clean_className_loop: "clean (className_loop P b re cr opts ms)"
  by (induction ms) (auto simp: clean_attempt split: option.splits)

lemma clean_ariaLabel_loop: "clean (ariaLabel_loop P b re opts ms)"
  by (induction ms) (auto simp: clean_attempt split: option.splits)

lemma clean_img_loop: "clean r \<Longrightarrow> clean (img_loop P b re opts a imgs r)"
  by (induction imgs) (auto simp: clean_attempt)

lemma clean_alt_loop: "clean (alt_loop P b re opts ms)"
  by (induction ms) (auto simp: clean_img_loop split: option.splits)

lemma clean_strategies: "clean (strategies P html b d opts m)"
  by (cases m)
     (simp_all add: findLinkByRel_def findLinkByPaginationStructure_def findLinkByText_def
        findLinkByClassName_def findLinkByAriaLabel_def findLinkByAltText_def
        clean_rel_loop clean_pagination_loop clean_text_loop clean_className_loop
        clean_ariaLabel_loop clean_alt_loop)

subsection \<open>The dispatcher\<close>

lemma methods_loop_none:
  "\<forall>m \<in> set ms. fst (strategies P html b d opts m) = None \<Longrightarrow>
   methods_loop P html b d opts ms =
     (None, concat (map (\<lambda>m. snd (strategies P html b d opts m)) ms))"
  by (induction ms) (auto simp: attempt_def)

lemma methods_loop_first:
  "\<forall>m \<in> set pre. fst (strategies P html b d opts m) = None \<Longrightarrow>
   fst (strategies P html b d opts m) = Some u \<Longrightarrow>
   methods_loop P html b d opts (pre @ m # post) =
     (Some u, concat (map (\<lambda>m. snd (strategies P html b d opts m)) pre)
                @ snd (strategies P html b d opts m))"
proof (induction pre)
  case Nil
  have "truthy (fst (strategies P html b d opts m))"
    using clean_strategies Nil.prems(2) by (rule clean_Some)
  then show ?case using Nil.prems(2) by (simp add: attempt_truthy prod_eq_iff)
next
  case (Cons a pre)
  then show ?case by (simp add: attempt_def)
qed

subsection \<open>Failed occurrences are skipped\<close>

lemma extract_Nil [simp]: "extractAbsoluteHref P [] b opts = (None, [])"
  by (simp add: ev)

lemma rel_skip:
  "\<forall>m \<in> set pre. rel_qualifies re m \<longrightarrow> unresolved P b opts m \<Longrightarrow>
   fst (rel_loop P b re opts (pre @ rest)) = fst (rel_loop P b re opts rest)"
  by (induction pre)
     (auto simp: rel_qualifies_def unresolved_def attributes_of_def attempt_def split: option.splits)

lemma text_skip:
  "\<forall>m \<in> set pre. text_qualifies re m \<longrightarrow> unresolved P b opts m \<Longrightarrow>
   fst (text_loop P b re opts (pre @ rest)) = fst (text_loop P b re opts rest)"
  by (induction pre)
     (auto simp: text_qualifies_def unresolved_def attributes_of_def attempt_def split: option.splits)

lemma className_skip:
  "\<forall>m \<in> set pre. className_qualifies re cu m \<longrightarrow> unresolved P b opts m \<Longrightarrow>
   fst (className_loop P b re cu opts (pre @ rest)) = fst (className_loop P b re cu opts rest)"
  by (induction pre)
     (auto simp: className_qualifies_def unresolved_def attributes_of_def attempt_def
           split: option.splits)

lemma ariaLabel_skip:
  "\<forall>m \<in> set pre. ariaLabel_qualifies re m \<longrightarrow> unresolved P b opts m \<Longrightarrow>
   fst (ariaLabel_loop P b re opts (pre @ rest)) = fst (ariaLabel_loop P b re opts rest)"
  by (induction pre)
     (auto simp: ariaLabel_qualifies_def unresolved_def attributes_of_def attempt_def
           split: option.splits)

lemma img_loop_unresolved:
  "\<not> truthy (fst (extractAbsoluteHref P a b opts)) \<Longrightarrow>
   fst (img_loop P b re opts a imgs rest) = fst rest"
  by (induction imgs) (auto simp: attempt_def)

lemma img_loop_no_alt:
  "\<forall>i \<in> set imgs. \<not> alt_matches re (matched i) \<Longrightarrow> img_loop P b re opts a imgs rest = rest"
  by (induction imgs) auto

lemma alt_skip:
  "\<forall>m \<in> set pre. alt_qualifies re m \<longrightarrow> unresolved P b opts m \<Longrightarrow>
   fst (alt_loop P b re opts (pre @ rest)) = fst (alt_loop P b re opts rest)"
proof (induction pre)
  case Nil
  then show ?case by simp
next
  case (Cons m pre)
  then have ih: "fst (alt_loop P b re opts (pre @ rest)) = fst (alt_loop P b re opts rest)"
    by simp
  show ?case
  proof (cases "group m 1")
    case None
    then show ?thesis using ih by simp
  next
    case (Some a)
    note a = this
    show ?thesis
    proof (cases "group m 2")
      case None
      then show ?thesis using ih a by simp
    next
      case (Some h)
      show ?thesis
      proof (cases "a = [] \<or> h = []")
        case True
        then show ?thesis using ih a Some by auto
      next
        case False
        show ?thesis
        proof (cases "alt_qualifies re m")
          case True
          then have "unresolved P b opts m" using Cons.prems by simp
          then have "\<not> truthy (fst (extractAbsoluteHref P a b opts))"
            using a by (simp add: unresolved_def attributes_of_def)
          then show ?thesis using ih a Some False by (simp add: img_loop_unresolved)
        next
          case no: False
          then have "\<forall>i \<in> set (matchAll IMG_TAG h). \<not> alt_matches re (matched i)"
            using a Some False by (simp add: alt_qualifies_def attributes_of_def)
          then show ?thesis using ih a Some False by (simp add: img_loop_no_alt)
        qed
      qed
    qed
  qed
qed

lemma pagination_skip:
  "\<forall>m \<in> set pre. container_of m \<noteq> [] \<longrightarrow>
      \<not> truthy (fst (container_rule P b li opts (container_of m)))
      \<and> \<not> truthy (fst (container_rule P b fb opts (container_of m))) \<Longrightarrow>
   fst (pagination_loop P b li fb opts (pre @ rest)) = fst (pagination_loop P b li fb opts rest)"
  by (induction pre) (auto simp: container_of_def attempt_def split: option.splits)

lemma pagination_li_failed:
  "container_of m \<noteq> [] \<Longrightarrow>
   \<not> truthy (fst (container_rule P b li opts (container_of m))) \<Longrightarrow>
   fst (pagination_loop P b li fb opts (m # ms)) =
     fst (attempt (container_rule P b fb opts (container_of m)) (pagination_loop P b li fb opts ms))"
  by (auto simp: container_of_def attempt_def split: option.splits)

subsection \<open>Where results and logger calls come from\<close>

lemma from_extract_nothing [simp]: "from_extract P b opts (None, [])"
  by (simp add: from_extract_def)

lemma from_extract_extract [simp]: "from_extract P b opts (extractAbsoluteHref P a b opts)"
  by (auto simp: from_extract_def)

lemma from_extract_attempt:
  "from_extract P b opts x \<Longrightarrow> from_extract P b opts y \<Longrightarrow> from_extract P b opts (attempt x y)"
  by (auto simp: from_extract_def attempt_def)

lemma from_extract_rel_loop: "from_extract P b opts (rel_loop P b re opts ms)"
  by (induction ms) (auto intro: from_extract_attempt split: option.splits)

lemma from_extract_container_rule: "from_extract P b opts (container_rule P b re opts c)"
  by (auto simp: container_rule_def split: option.splits)

lemma from_extract_pagination_loop: "from_extract P b opts (pagination_loop P b li fb opts ms)"
  by (induction ms)
     (auto intro!: from_extract_attempt from_extract_container_rule split: option.splits)

lemma from_extract_text_loop: "from_extract P b opts (text_loop P b re opts ms)"
  by (induction ms) (auto intro: from_extract_attempt split: option.splits)

lemma from_extract_className_loop: "from_extract P b opts (className_loop P b re cu opts ms)"
  by (induction ms) (auto intro: from_extract_attempt split: option.splits)

lemma from_extract_ariaLabel_loop: "from_extract P b opts (ariaLabel_loop P b re opts ms)"
  by (induction ms) (auto intro: from_extract_attempt split: option.splits)

lemma from_extract_img_loop:
  "from_extract P b opts r \<Longrightarrow> from_extract P b opts (img_loop P b re opts a imgs r)"
  by (induction imgs) (auto intro: from_extract_attempt)

lemma from_extract_alt_loop: "from_extract P b opts (alt_loop P b re opts ms)"
  by (induction ms) (auto intro: from_extract_img_loop split: option.splits)

lemma from_extract_strategies: "from_extract P b opts (strategies P html b d opts m)"
  by (cases m)
     (simp_all add: findLinkByRel_def findLinkByPaginationStructure_def findLinkByText_def
        findLinkByClassName_def findLinkByAriaLabel_def findLinkByAltText_def
        from_extract_rel_loop from_extract_pagination_loop from_extract_text_loop
        from_extract_className_loop from_extract_ariaLabel_loop from_extract_alt_loop)

lemma from_extract_methods_loop: "from_extract P b opts (methods_loop P html b d opts ms)"
  by (induction ms) (auto intro: from_extract_attempt from_extract_strategies)

lemma from_extract_findLink: "from_extract P b opts (findLink P html b d opts)"
  by (simp add: findLink_def from_extract_methods_loop)

lemma extract_Some:
  "fst (extractAbsoluteHref P a b opts) = Some u \<Longrightarrow>
   \<exists>href. extractAttribute a ''href'' = Some href \<and> href \<noteq> [] \<and> URL_resolve P href b = Inr u"
  by (auto simp: extractAbsoluteHref_def split: option.splits if_splits sum.splits)


lemma findLink_Some:
  "fst (findLink P html b d opts) = Some u \<Longrightarrow>
   \<exists>a href. extractAttribute a ''href'' = Some href \<and> href \<noteq> [] \<and> URL_resolve P href b = Inr u"
  using from_extract_findLink [of P b opts html d] extract_Some
  unfolding from_extract_def by blast


lemma findLink_truthy: "fst (findLink P html b d opts) = Some u \<Longrightarrow> u \<noteq> []"
proof -
  have "clean (methods_loop P html b d opts ms)" for ms
    by (induction ms) (auto intro: clean_attempt)
  then have "clean (findLink P html b d opts)" by (simp add: findLink_def)
  then show "fst (findLink P html b d opts) = Some u \<Longrightarrow> u \<noteq> []"
    by (auto simp: clean_def)
qed

subsection \<open>Greedy repetition\<close>

lemma last_of_Cons: "last_of p (a # v) = last_of (Some a) v"
  by (simp add: last_of_def)

text \<open>
  A greedy star runs over every character it accepts before its continuation is tried: if
  the match succeeds from the end of an accepted run, it is the match from its start.
\<close>

lemma star_run:
  "\<forall>c \<in> set v. accepts fl cs c \<Longrightarrow>
   exec fl (R (Star cs) # K) (last_of p v) rest caps \<noteq> None \<Longrightarrow>
   exec fl (R (Star cs) # K) p (v @ rest) caps = exec fl (R (Star cs) # K) (last_of p v) rest caps"
proof (induction v arbitrary: p)
  case Nil
  then show ?case by (simp add: last_of_def)
next
  case (Cons a v)
  have ne: "exec fl (R (Star cs) # K) (last_of (Some a) v) rest caps \<noteq> None"
    using Cons.prems(2) by (simp add: last_of_Cons)
  have ih: "exec fl (R (Star cs) # K) (Some a) (v @ rest) caps
              = exec fl (R (Star cs) # K) (last_of (Some a) v) rest caps"
    using Cons.IH [of "Some a"] Cons.prems(1) ne by simp
  show ?case
    using Cons.prems(1) ih ne by (auto simp: last_of_Cons split: option.splits)
qed


subsection \<open>The two patterns of findUrlByPathSegment\<close>
















subsection \<open>Numbers and parameters\<close>



lemma parseInt10_Nil [simp]: "parseInt10 [] = None"
  by (simp add: parseInt10_def)






subsection \<open>The pattern of extractAttribute\<close>

lemma ignoreCase_fl_i [simp]: "ignoreCase fl_i"
  by (simp add: fl_i_def)

lemma lit_Cons: "lit (c # s) = Seq (One (chr c)) (lit s)"
  by (simp add: lit_def cat_def)

lemma lit_Nil: "lit [] = Eps"
  by (simp add: lit_def cat_def)

lemma js_Cons: "js (c # s) = of_char c # js s"
  by (simp add: js_def)

lemma lit_match:
  "exec fl_i (R (lit s) # K) p (js s @ xs) cs = exec fl_i K (last_of p (js s)) xs cs"
proof (induction s arbitrary: p)
  case Nil
  then show ?case by (simp add: lit_Nil js_def last_of_def)
next
  case (Cons c s)
  have "accepts fl_i (chr c) (of_char c)" by (simp add: chr_def fl_i_def)
  then show ?case
    using Cons.IH [of "Some (of_char c)"]
    by (simp add: lit_Cons js_Cons last_of_Cons del: accepts.simps)
qed

lemma search_from_skip:
  "\<forall>c \<in> set pre. \<forall>p xs. exec (fst r) [R (snd r)] p (c # xs) [] = None \<Longrightarrow>
   search_from r sk p (pre @ y # ys) = search_from r (rev pre @ sk) (last_of p pre) (y # ys)"
proof (induction pre arbitrary: sk p)
  case Nil
  then show ?case by (simp add: last_of_def)
next
  case (Cons c pre)
  then show ?case by (simp add: last_of_Cons)
qed

lemma attribute_first_char:
  "canon x \<noteq> canon (of_char c) \<Longrightarrow>
   exec (fst (attribute_regex (c # s))) [R (snd (attribute_regex (c # s)))] p (x # xs) [] = None"
  by (simp add: attribute_regex_def cat_def lit_Cons chr_def fl_i_def)

lemma accepts_ws: "accepts fl Ws c = isSpace c"
  by simp

lemma quote_facts:
  assumes "q = 34 \<or> q = 39"
  shows "\<not> isSpace q" "accepts fl_i quote q" "\<not> accepts fl_i (NoneOf [Ch 34, Ch 39]) q"
  using assms by (auto simp: isSpace_def quote_def fl_i_def canon_def)

lemma not_quote_accepted:
  "c \<noteq> 34 \<and> c \<noteq> 39 \<Longrightarrow> accepts fl_i (NoneOf [Ch 34, Ch 39]) c"
  by (auto simp: fl_i_def canon_def split: if_splits)

lemma attribute_match:
  assumes "q = 34 \<or> q = 39" "\<forall>c \<in> set v. c \<noteq> 34 \<and> c \<noteq> 39"
  shows "exec fl_i [R (snd (attribute_regex name))] p (js name @ js ''='' @ q # v @ q # rest) []
           = Some (Some q, rest, [(2, v), (1, [q])])"
proof -
  let ?nq = "NoneOf [Ch 34, Ch 39]"
  let ?caps = "[(1, [q])]"
  let ?K = "[Close 2 (v @ q # rest), R (Seq (Bref 1) Eps)]"
  note qf = quote_facts [OF assms(1)]
  have e: "exec fl_i (R (Star ?nq) # ?K) (last_of (Some q) v) (q # rest) ?caps
             = Some (Some q, rest, [(2, v), (1, [q])])"
    using qf(3) by (simp add: captured_def last_of_def del: accepts.simps)
  have "exec fl_i (R (Star ?nq) # ?K) (Some q) (v @ q # rest) ?caps
          = exec fl_i (R (Star ?nq) # ?K) (last_of (Some q) v) (q # rest) ?caps"
    by (rule star_run) (use assms(2) e in \<open>auto simp: not_quote_accepted simp del: accepts.simps\<close>)
  then have s: "exec fl_i (R (Star ?nq) # ?K) (Some q) (v @ q # rest) ?caps
          = Some (Some q, rest, [(2, v), (1, [q])])"
    using e by simp
  have eqs: "accepts fl_i (chr CHR ''='') 61" "\<not> isSpace 61"
    by (simp_all add: chr_def fl_i_def isSpace_def)
  have "exec fl_i [R (Seq eq (Seq (Grp 1 (One quote)) (Seq (Grp 2 (Star ?nq)) (Seq (Bref 1) Eps))))]
          (last_of p (js name)) (61 # q # v @ q # rest) []
          = Some (Some q, rest, [(2, v), (1, [q])])"
    using s qf(1,2) eqs by (simp add: eq_def cat_def accepts_ws del: accepts.simps)
  then show ?thesis
    using lit_match [of name _ p "61 # q # v @ q # rest" "[]"]
    by (simp add: attribute_regex_def cat_def js_def)
qed

section \<open>Specified properties\<close>




text \<open>
  C2, as amended. In the five strategies that scan occurrences (rel, text, className,
  aria-label, alt) an occurrence that qualifies structurally but whose href gives no URL
  counts as no match: whatever number of such occurrences come first, the result is that
  of the scan from the next occurrence on. In the pagination strategy the unit is the
  container: of each container only the first match of the list-item pattern and then the
  first match of the fallback pattern are tried; when the list-item match gives no URL
  the fallback pattern is what comes next, and when neither gives one the scan goes on
  with the later containers.
\<close>

theorem C2_scan_continues_after_unresolved_href:
  "(matchAll POTENTIAL_LINK_TAGS html1 = pre1 @ rest1
      \<and> (\<forall>m \<in> set pre1. rel_qualifies relRegex m \<longrightarrow> unresolved P b opts m) \<longrightarrow>
      fst (findLinkByRel P html1 b relRegex opts) = fst (rel_loop P b relRegex opts rest1))
   \<and> (matchAll ANCHOR_TAG html2 = pre2 @ rest2
      \<and> (\<forall>m \<in> set pre2. text_qualifies textRegex m \<longrightarrow> unresolved P b opts m) \<longrightarrow>
      fst (findLinkByText P html2 b textRegex opts) = fst (text_loop P b textRegex opts rest2))
   \<and> (matchAll ANCHOR_TAG_START html3 = pre3 @ rest3
      \<and> (\<forall>m \<in> set pre3. className_qualifies defaultRegex custom m \<longrightarrow> unresolved P b opts m) \<longrightarrow>
      fst (findLinkByClassName P html3 b defaultRegex custom opts)
        = fst (className_loop P b defaultRegex custom opts rest3))
   \<and> (matchAll ANCHOR_TAG_START html4 = pre4 @ rest4
      \<and> (\<forall>m \<in> set pre4. ariaLabel_qualifies textRegex m \<longrightarrow> unresolved P b opts m) \<longrightarrow>
      fst (findLinkByAriaLabel P html4 b textRegex opts)
        = fst (ariaLabel_loop P b textRegex opts rest4))
   \<and> (matchAll ANCHOR_TAG html5 = pre5 @ rest5
      \<and> (\<forall>m \<in> set pre5. alt_qualifies textRegex m \<longrightarrow> unresolved P b opts m) \<longrightarrow>
      fst (findLinkByAltText P html5 b textRegex opts) = fst (alt_loop P b textRegex opts rest5))
   \<and> (matchAll PAGINATION_CONTAINER html6 = pre6 @ rest6
      \<and> (\<forall>m \<in> set pre6. container_of m \<noteq> [] \<longrightarrow>
            \<not> truthy (fst (container_rule P b liRegex opts (container_of m)))
            \<and> \<not> truthy (fst (container_rule P b fallbackRegex opts (container_of m)))) \<longrightarrow>
      fst (findLinkByPaginationStructure P html6 b liRegex fallbackRegex opts)
        = fst (pagination_loop P b liRegex fallbackRegex opts rest6))
   \<and> (container_of m \<noteq> []
      \<and> \<not> truthy (fst (container_rule P b liRegex opts (container_of m))) \<longrightarrow>
      fst (pagination_loop P b liRegex fallbackRegex opts (m # ms))
        = fst (attempt (container_rule P b fallbackRegex opts (container_of m))
                 (pagination_loop P b liRegex fallbackRegex opts ms)))"
proof (intro conjI impI)
  assume "matchAll POTENTIAL_LINK_TAGS html1 = pre1 @ rest1
      \<and> (\<forall>m \<in> set pre1. rel_qualifies relRegex m \<longrightarrow> unresolved P b opts m)"
  then show "fst (findLinkByRel P html1 b relRegex opts) = fst (rel_loop P b relRegex opts rest1)"
    by (simp add: findLinkByRel_def rel_skip)
next
  assume "matchAll ANCHOR_TAG html2 = pre2 @ rest2
      \<and> (\<forall>m \<in> set pre2. text_qualifies textRegex m \<longrightarrow> unresolved P b opts m)"
  then show "fst (findLinkByText P html2 b textRegex opts) = fst (text_loop P b textRegex opts rest2)"
    by (simp add: findLinkByText_def text_skip)
next
  assume "matchAll ANCHOR_TAG_START html3 = pre3 @ rest3
      \<and> (\<forall>m \<in> set pre3. className_qualifies defaultRegex custom m \<longrightarrow> unresolved P b opts m)"
  then show "fst (findLinkByClassName P html3 b defaultRegex custom opts)
        = fst (className_loop P b defaultRegex custom opts rest3)"
    by (simp add: findLinkByClassName_def className_skip)
next
  assume "matchAll ANCHOR_TAG_START html4 = pre4 @ rest4
      \<and> (\<forall>m \<in> set pre4. ariaLabel_qualifies textRegex m \<longrightarrow> unresolved P b opts m)"
  then show "fst (findLinkByAriaLabel P html4 b textRegex opts)
        = fst (ariaLabel_loop P b textRegex opts rest4)"
    by (simp add: findLinkByAriaLabel_def ariaLabel_skip)
next
  assume "matchAll ANCHOR_TAG html5 = pre5 @ rest5
      \<and> (\<forall>m \<in> set pre5. alt_qualifies textRegex m \<longrightarrow> unresolved P b opts m)"
  then show "fst (findLinkByAltText P html5 b textRegex opts) = fst (alt_loop P b textRegex opts rest5)"
    by (simp add: findLinkByAltText_def alt_skip)
next
  assume "matchAll PAGINATION_CONTAINER html6 = pre6 @ rest6
      \<and> (\<forall>m \<in> set pre6. container_of m \<noteq> [] \<longrightarrow>
            \<not> truthy (fst (container_rule P b liRegex opts (container_of m)))
            \<and> \<not> truthy (fst (container_rule P b fallbackRegex opts (container_of m))))"
  then show "fst (findLinkByPaginationStructure P html6 b liRegex fallbackRegex opts)
        = fst (pagination_loop P b liRegex fallbackRegex opts rest6)"
    by (simp add: findLinkByPaginationStructure_def pagination_skip)
next
  assume "container_of m \<noteq> []
      \<and> \<not> truthy (fst (container_rule P b liRegex opts (container_of m)))"
  then show "fst (pagination_loop P b liRegex fallbackRegex opts (m # ms))
        = fst (attempt (container_rule P b fallbackRegex opts (container_of m))
                 (pagination_loop P b liRegex fallbackRegex opts ms))"
    using pagination_li_failed [of m P b liRegex opts fallbackRegex ms] by blast
qed

text \<open>
  On each of the six pages the first occurrence qualifies, its href is invalid, and the
  strategy returns the URL of the second occurrence.
\<close>

theorem C2_scan_continues_after_unresolved_href_witness:
  "unresolved sample base opts0 (hd (matchAll POTENTIAL_LINK_TAGS page_rel))
   \<and> fst (findLinkByRel sample page_rel base (REL Next) opts0)
        = fst (rel_loop sample base (REL Next) opts0 (tl (matchAll POTENTIAL_LINK_TAGS page_rel)))
   \<and> fst (findLinkByRel sample page_rel base (REL Next) opts0) = Some (js ''https://example.com/b'')
   \<and> unresolved sample base opts0 (hd (matchAll ANCHOR_TAG page_text))
   \<and> fst (findLinkByText sample page_text base (TEXT Next) opts0)
        = fst (text_loop sample base (TEXT Next) opts0 (tl (matchAll ANCHOR_TAG page_text)))
   \<and> fst (findLinkByText sample page_text base (TEXT Next) opts0) = Some (js ''https://example.com/b'')
   \<and> unresolved sample base opts0 (hd (matchAll ANCHOR_TAG_START page_class))
   \<and> fst (findLinkByClassName sample page_class base (CLASS_NAME Next) None opts0)
        = fst (className_loop sample base (CLASS_NAME Next) None opts0
                 (tl (matchAll ANCHOR_TAG_START page_class)))
   \<and> fst (findLinkByClassName sample page_class base (CLASS_NAME Next) None opts0)
        = Some (js ''https://example.com/b'')
   \<and> unresolved sample base opts0 (hd (matchAll ANCHOR_TAG_START page_aria))
   \<and> fst (findLinkByAriaLabel sample page_aria base (TEXT Next) opts0)
        = fst (ariaLabel_loop sample base (TEXT Next) opts0 (tl (matchAll ANCHOR_TAG_START page_aria)))
   \<and> fst (findLinkByAriaLabel sample page_aria base (TEXT Next) opts0)
        = Some (js ''https://example.com/b'')
   \<and> unresolved sample base opts0 (hd (matchAll ANCHOR_TAG page_alt))
   \<and> fst (findLinkByAltText sample page_alt base (TEXT Next) opts0)
        = fst (alt_loop sample base (TEXT Next) opts0 (tl (matchAll ANCHOR_TAG page_alt)))
   \<and> fst (findLinkByAltText sample page_alt base (TEXT Next) opts0) = Some (js ''https://example.com/b'')
   \<and> container_of (hd (matchAll PAGINATION_CONTAINER page_two_pagers)) \<noteq> []
   \<and> fst (findLinkByPaginationStructure sample page_two_pagers base (PAGINATION_LI Next)
            (PAGINATION_FALLBACK Next) opts0)
        = fst (pagination_loop sample base (PAGINATION_LI Next) (PAGINATION_FALLBACK Next) opts0
                 (tl (matchAll PAGINATION_CONTAINER page_two_pagers)))
   \<and> fst (findLinkByPaginationStructure sample page_two_pagers base (PAGINATION_LI Next)
            (PAGINATION_FALLBACK Next) opts0) = Some (js ''https://example.com/b'')"
proof -
  have r1: "matchAll POTENTIAL_LINK_TAGS page_rel \<noteq> []"
    by (simp add: ev pages)
  have r2: "unresolved sample base opts0 (hd (matchAll POTENTIAL_LINK_TAGS page_rel))"
    by (simp add: ev pages qualifies)
  have r3: "fst (findLinkByRel sample page_rel base (REL Next) opts0) = Some (js ''https://example.com/b'')"
    by (simp add: ev pages)
  have t1: "matchAll ANCHOR_TAG page_text \<noteq> []"
    by (simp add: ev pages)
  have t2: "unresolved sample base opts0 (hd (matchAll ANCHOR_TAG page_text))"
    by (simp add: ev pages qualifies)
  have t3: "fst (findLinkByText sample page_text base (TEXT Next) opts0) = Some (js ''https://example.com/b'')"
    by (simp add: ev pages)
  have c1: "matchAll ANCHOR_TAG_START page_class \<noteq> []"
    by (simp add: ev pages)
  have c2: "unresolved sample base opts0 (hd (matchAll ANCHOR_TAG_START page_class))"
    by (simp add: ev pages qualifies)
  have c3: "fst (findLinkByClassName sample page_class base (CLASS_NAME Next) None opts0)
        = Some (js ''https://example.com/b'')"
    by (simp add: ev pages)
  have a1: "matchAll ANCHOR_TAG_START page_aria \<noteq> []"
    by (simp add: ev pages)
  have a2: "unresolved sample base opts0 (hd (matchAll ANCHOR_TAG_START page_aria))"
    by (simp add: ev pages qualifies)
  have a3: "fst (findLinkByAriaLabel sample page_aria base (TEXT Next) opts0)
        = Some (js ''https://example.com/b'')"
    by (simp add: ev pages)
  have i1: "matchAll ANCHOR_TAG page_alt \<noteq> []"
    by (simp add: ev pages)
  have i2: "unresolved sample base opts0 (hd (matchAll ANCHOR_TAG page_alt))"
    by (simp add: ev pages qualifies)
  have i3: "fst (findLinkByAltText sample page_alt base (TEXT Next) opts0) = Some (js ''https://example.com/b'')"
    by (simp add: ev pages)
  have p1: "matchAll PAGINATION_CONTAINER page_two_pagers \<noteq> []"
    by (simp add: ev pages)
  have p2: "container_of (hd (matchAll PAGINATION_CONTAINER page_two_pagers))
              = js ''<li class=\"current\">1</li><li><a href=\"http://a b\">2</a></li>''"
    by (simp add: ev pages qualifies)
  have p3: "\<not> truthy (fst (container_rule sample base (PAGINATION_LI Next) opts0
              (js ''<li class=\"current\">1</li><li><a href=\"http://a b\">2</a></li>'')))"
    by (simp add: ev)
  have p4: "\<not> truthy (fst (container_rule sample base (PAGINATION_FALLBACK Next) opts0
              (js ''<li class=\"current\">1</li><li><a href=\"http://a b\">2</a></li>'')))"
    by (simp add: ev)
  have p5: "js ''<li class=\"current\">1</li><li><a href=\"http://a b\">2</a></li>'' \<noteq> []"
    by (simp add: js_def)
  have p6: "fst (findLinkByPaginationStructure sample page_two_pagers base (PAGINATION_LI Next)
            (PAGINATION_FALLBACK Next) opts0) = Some (js ''https://example.com/b'')"
    by (simp add: ev pages)
  note T = C2_scan_continues_after_unresolved_href
          [where P = sample and b = base and opts = opts0
             and relRegex = "REL Next" and textRegex = "TEXT Next"
             and defaultRegex = "CLASS_NAME Next" and custom = None
             and liRegex = "PAGINATION_LI Next" and fallbackRegex = "PAGINATION_FALLBACK Next"
             and ?html1.0 = page_rel
             and ?pre1.0 = "[hd (matchAll POTENTIAL_LINK_TAGS page_rel)]"
             and ?rest1.0 = "tl (matchAll POTENTIAL_LINK_TAGS page_rel)"
             and ?html2.0 = page_text
             and ?pre2.0 = "[hd (matchAll ANCHOR_TAG page_text)]"
             and ?rest2.0 = "tl (matchAll ANCHOR_TAG page_text)"
             and ?html3.0 = page_class
             and ?pre3.0 = "[hd (matchAll ANCHOR_TAG_START page_class)]"
             and ?rest3.0 = "tl (matchAll ANCHOR_TAG_START page_class)"
             and ?html4.0 = page_aria
             and ?pre4.0 = "[hd (matchAll ANCHOR_TAG_START page_aria)]"
             and ?rest4.0 = "tl (matchAll ANCHOR_TAG_START page_aria)"
             and ?html5.0 = page_alt
             and ?pre5.0 = "[hd (matchAll ANCHOR_TAG page_alt)]"
             and ?rest5.0 = "tl (matchAll ANCHOR_TAG page_alt)"
             and ?html6.0 = page_two_pagers
             and ?pre6.0 = "[hd (matchAll PAGINATION_CONTAINER page_two_pagers)]"
             and ?rest6.0 = "tl (matchAll PAGINATION_CONTAINER page_two_pagers)"
             and m = "hd (matchAll PAGINATION_CONTAINER page_two_pagers)"
             and ms = "tl (matchAll PAGINATION_CONTAINER page_two_pagers)"]
  show ?thesis
    using T r1 r2 r3 t1 t2 t3 c1 c2 c3 a1 a2 a3 i1 i2 i3 p1 p2 p3 p4 p5 p6 by simp
qed

text \<open>
  C2 as stated fails for the pagination strategy. The container of \<open>page_one_pager\<close> holds
  two matches of the list-item pattern; the href of the first is invalid and the href of
  the second resolves, but the strategy, and findNext with it, finds nothing: inside a
  container the scan does not go on to the next matching occurrence.
\<close>

theorem C2_counterexample:
  "length (matchAll (PAGINATION_LI Next) pager_inner) = 2
   \<and> group (matchAll (PAGINATION_LI Next) pager_inner ! 1) 1 = Some (js ''href=\"/page/4\"'')
   \<and> extractAbsoluteHref sample (js ''href=\"/page/4\"'') base opts0
        = (Some (js ''https://example.com/page/4''), [])
   \<and> fst (findLinkByPaginationStructure sample page_one_pager base (PAGINATION_LI Next)
            (PAGINATION_FALLBACK Next) opts0) = None
   \<and> fst (findNext sample page_one_pager base opts0) = None"
  by (simp add: ev pages)

text \<open>
  C3. findLink runs the strategies in the order of \<open>options.methods\<close>, by default rel,
  pagination, text, className, aria-label, alt. If every listed strategy finds nothing,
  the result is nothing, after the logger calls of all of them. Otherwise the result is
  that of the first strategy in the order that finds a URL, and the logger has received
  the calls of the strategies up to that one only: no later strategy has run. So of two
  strategies that both have a candidate, the earlier in the order decides.
\<close>

theorem C3_first_strategy_in_order_wins:
  "(methods opts = None \<longrightarrow>
      effective_methods opts = [M_rel, M_pagination, M_text, M_className, M_aria_label, M_alt])
   \<and> ((\<forall>m \<in> set (effective_methods opts). fst (strategies P html b d opts m) = None) \<longrightarrow>
        findLink P html b d opts =
          (None, concat (map (\<lambda>m. snd (strategies P html b d opts m)) (effective_methods opts))))
   \<and> (effective_methods opts = pre @ m # post
        \<and> (\<forall>m' \<in> set pre. fst (strategies P html b d opts m') = None)
        \<and> fst (strategies P html b d opts m) = Some u \<longrightarrow>
        findLink P html b d opts =
          (Some u, concat (map (\<lambda>m'. snd (strategies P html b d opts m')) pre)
                     @ snd (strategies P html b d opts m)))"
proof (intro conjI impI)
  assume "methods opts = None"
  then show "effective_methods opts = [M_rel, M_pagination, M_text, M_className, M_aria_label, M_alt]"
    by (simp add: effective_methods_def default_methods_def)
next
  assume "\<forall>m \<in> set (effective_methods opts). fst (strategies P html b d opts m) = None"
  then show "findLink P html b d opts =
      (None, concat (map (\<lambda>m. snd (strategies P html b d opts m)) (effective_methods opts)))"
    unfolding findLink_def by (rule methods_loop_none)
next
  assume a: "effective_methods opts = pre @ m # post
        \<and> (\<forall>m' \<in> set pre. fst (strategies P html b d opts m') = None)
        \<and> fst (strategies P html b d opts m) = Some u"
  then show "findLink P html b d opts =
      (Some u, concat (map (\<lambda>m'. snd (strategies P html b d opts m')) pre)
                 @ snd (strategies P html b d opts m))"
    unfolding findLink_def using methods_loop_first [of pre P html b d opts m u post] by simp
qed

text \<open>
  The page \<open><a href="/from-text">Next</a><link rel="next" href="/from-rel">\<close> has a
  candidate for the text strategy and one for the rel strategy: the order text, rel gives
  the first, the default order gives the second, and a page without links gives nothing.
\<close>

theorem C3_first_strategy_in_order_wins_witness:
  "findLink sample (js ''<a href=\"/from-text\">Next</a><link rel=\"next\" href=\"/from-rel\">'')
     base Next (opts0\<lparr>methods := Some [M_text, M_rel]\<rparr>)
     = (Some (js ''https://example.com/from-text''), [])
   \<and> findLink sample (js ''<a href=\"/from-text\">Next</a><link rel=\"next\" href=\"/from-rel\">'')
     base Next opts0
     = (Some (js ''https://example.com/from-rel''), [])
   \<and> findLink sample (js ''<p>No links here.</p>'') base Next opts0 = (None, [])"
  using C3_first_strategy_in_order_wins
          [of "opts0\<lparr>methods := Some [M_text, M_rel]\<rparr>" sample
              "js ''<a href=\"/from-text\">Next</a><link rel=\"next\" href=\"/from-rel\">''"
              base Next "[]" M_text "[M_rel]" "js ''https://example.com/from-text''"]
        C3_first_strategy_in_order_wins
          [of opts0 sample
              "js ''<a href=\"/from-text\">Next</a><link rel=\"next\" href=\"/from-rel\">''"
              base Next "[]" M_rel "[M_pagination, M_text, M_className, M_aria_label, M_alt]"
              "js ''https://example.com/from-rel''"]
        C3_first_strategy_in_order_wins
          [of opts0 sample "js ''<p>No links here.</p>''" base Next]
  by (simp add: ev)







text \<open>
  C7. Whenever findNext or findPrev returns a URL, it is a non-empty string that the URL
  class gave as the \<open>href\<close> of a non-empty href value, extracted from some attribute text,
  resolved against the base URL: a serialized absolute URL, never the raw reference.
\<close>

theorem C7_result_is_a_resolved_href:
  "(fst (findNext P html b opts) = Some u \<longrightarrow>
      u \<noteq> [] \<and> (\<exists>a href. extractAttribute a ''href'' = Some href \<and> href \<noteq> []
                     \<and> URL_resolve P href b = Inr u))
   \<and> (fst (findPrev P html b opts) = Some u' \<longrightarrow>
      u' \<noteq> [] \<and> (\<exists>a href. extractAttribute a ''href'' = Some href \<and> href \<noteq> []
                     \<and> URL_resolve P href b = Inr u'))"
  unfolding findNext_def findPrev_def
  using findLink_Some [of P html b Next opts u] findLink_truthy [of P html b Next opts u]
        findLink_Some [of P html b Prev opts u'] findLink_truthy [of P html b Prev opts u']
  by blast

text \<open>
  With the base \<open>https://example.com\<close>, \<open>href="/page/2"\<close> yields
  \<open>https://example.com/page/2\<close>.
\<close>

theorem C7_result_is_a_resolved_href_witness:
  "fst (findNext sample (js ''<head><link rel=\"next\" href=\"/page/2\"></head>'') base opts0)
     = Some (js ''https://example.com/page/2'')
   \<and> URL_resolve sample (js ''/page/2'') base = Inr (js ''https://example.com/page/2'')
   \<and> fst (findPrev sample (js ''<a href=\"/page/1\" rel=\"prev\">Previous</a>'') base opts0)
     = Some (js ''https://example.com/page/1'')"
  using C7_result_is_a_resolved_href
          [of sample "js ''<head><link rel=\"next\" href=\"/page/2\"></head>''" base opts0
              "js ''https://example.com/page/2''"]
        C7_result_is_a_resolved_href
          [of sample "js ''<a href=\"/page/1\" rel=\"prev\">Previous</a>''" base opts0 _
              "js ''https://example.com/page/1''"]
  by (simp add: ev)




text \<open>
  C9. extractAttribute matches the attribute name anywhere in the attribute text, with
  nothing required before it: whatever text without the name's first letter (in either
  case) comes first, for instance the \<open>data-\<close> of \<open>data-href\<close>, the name followed by
  \<open>=\<close> and a quoted value yields that value, whatever follows, so the first such
  occurrence in the text wins. extractAbsoluteHref then resolves that value.
\<close>

theorem C9_attribute_name_matches_as_substring:
  assumes "name \<in> {''href'', ''class'', ''id'', ''aria-label'', ''alt''}"
    and "\<forall>c \<in> set pre. canon c \<noteq> canon (of_char (hd name))"
    and "q = 34 \<or> q = 39"
    and "\<forall>c \<in> set v. c \<noteq> 34 \<and> c \<noteq> 39"
  shows "extractAttribute (pre @ js name @ js ''='' @ q # v @ q # rest) name = Some v
   \<and> (name = ''href'' \<and> v \<noteq> [] \<and> URL_resolve P v b = Inr u \<longrightarrow>
        extractAbsoluteHref P (pre @ js name @ js ''='' @ q # v @ q # rest) b opts = (Some u, []))"
proof -
  obtain c s where name: "name = c # s" using assms(1) by auto
  let ?r = "attribute_regex name"
  let ?tail = "js s @ js ''='' @ q # v @ q # rest"
  have f: "fst ?r = fl_i" by (simp add: attribute_regex_def)
  have split: "js name @ js ''='' @ q # v @ q # rest = of_char c # ?tail"
    by (simp add: name js_def)
  have fail: "\<forall>x \<in> set pre. \<forall>p xs. exec (fst ?r) [R (snd ?r)] p (x # xs) [] = None"
    using assms(2) attribute_first_char unfolding name by simp
  have m: "exec (fst ?r) [R (snd ?r)] p (of_char c # ?tail) []
             = Some (Some q, rest, [(2, v), (1, [q])])" for p
    using attribute_match [OF assms(3,4), of name p rest] by (simp only: f split)
  have "search ?r (pre @ of_char c # ?tail)
          = search_from ?r (rev pre @ []) (last_of None pre) (of_char c # ?tail)"
    unfolding search_def using fail by (rule search_from_skip)
  then have "\<exists>m. search ?r (pre @ of_char c # ?tail) = Some m \<and> group m 2 = Some v"
    using m by (simp add: group_def)
  then have e: "extractAttribute (pre @ js name @ js ''='' @ q # v @ q # rest) name = Some v"
    unfolding split by (auto simp: extractAttribute_def)
  show ?thesis
    using e by (auto simp: extractAbsoluteHref_def)
qed

text \<open>
  In \<open><a data-href="/a" rel="next" href="/b">\<close> the href lookup returns \<open>/a\<close>, the value
  of \<open>data-href\<close>, and findNext returns \<open>https://example.com/a\<close>.
\<close>

theorem C9_attribute_name_matches_as_substring_witness:
  "extractAttribute (js ''data-href=\"/a\" rel=\"next\" href=\"/b\"'') ''href'' = Some (js ''/a'')
   \<and> extractAbsoluteHref sample (js ''data-href=\"/a\" rel=\"next\" href=\"/b\"'') base opts0
       = (Some (js ''https://example.com/a''), [])
   \<and> findNext sample (js ''<a data-href=\"/a\" rel=\"next\" href=\"/b\">'') base opts0
       = (Some (js ''https://example.com/a''), [])"
proof -
  have t: "js ''data-'' @ js ''href'' @ js ''='' @ 34 # js ''/a'' @ 34 # js '' rel=\"next\" href=\"/b\"''
             = js ''data-href=\"/a\" rel=\"next\" href=\"/b\"''"
    by (simp add: js_def)
  have h: "\<forall>c \<in> set (js ''data-''). canon c \<noteq> canon (of_char (hd ''href''))"
    by (simp add: js_def canon_def)
  have v: "\<forall>c \<in> set (js ''/a''). c \<noteq> 34 \<and> c \<noteq> 39" "js ''/a'' \<noteq> []"
    by (simp_all add: js_def)
  have r: "URL_resolve sample (js ''/a'') base = Inr (js ''https://example.com/a'')"
    by (simp add: sample_def sample_resolve_def plain_ref_def base_def isDigit_def js_def)
  have n: "findNext sample (js ''<a data-href=\"/a\" rel=\"next\" href=\"/b\">'') base opts0
       = (Some (js ''https://example.com/a''), [])"
    by (simp add: ev)
  show ?thesis
    using C9_attribute_name_matches_as_substring
            [where name = "''href''" and pre = "js ''data-''" and q = 34 and v = "js ''/a''"
               and rest = "js '' rel=\"next\" href=\"/b\"''" and P = sample and b = base
               and u = "js ''https://example.com/a''" and opts = opts0]
          h v r n
    by (simp add: t)
qed

text \<open>
  C10. An anchor whose href value is the empty string is handled as one without href:
  extractAbsoluteHref returns nothing, whatever the URL class would make of the empty
  reference, and makes no logger call, which is also what it does when the attribute is
  missing. So in every strategy the scan goes on with the next occurrence, and a rule of
  the pagination strategy that matched such an anchor gives nothing.
\<close>

theorem C10_empty_href_is_no_href:
  assumes "extractAttribute attributes ''href'' = Some []"
  shows "extractAbsoluteHref P attributes b opts = (None, [])
   \<and> (extractAttribute attributes' ''href'' = None \<longrightarrow>
        extractAbsoluteHref P attributes' b opts = extractAbsoluteHref P attributes b opts)
   \<and> (group m 1 = Some attributes \<longrightarrow>
        rel_loop P b relRegex opts (m # ms) = rel_loop P b relRegex opts ms
        \<and> text_loop P b textRegex opts (m # ms) = text_loop P b textRegex opts ms
        \<and> className_loop P b defaultRegex custom opts (m # ms)
            = className_loop P b defaultRegex custom opts ms
        \<and> ariaLabel_loop P b textRegex opts (m # ms) = ariaLabel_loop P b textRegex opts ms
        \<and> alt_loop P b textRegex opts (m # ms) = alt_loop P b textRegex opts ms)
   \<and> (search regex containerHtml = Some m \<and> group m 1 = Some attributes \<longrightarrow>
        container_rule P b regex opts containerHtml = (None, []))"
proof -
  have e: "extractAbsoluteHref P attributes b opts = (None, [])"
    using assms by (simp add: extractAbsoluteHref_def)
  have i: "img_loop P b textRegex opts attributes imgs r = r" for imgs r
    by (induction imgs) (simp_all add: e)
  show ?thesis
  proof (intro conjI impI)
    show "extractAbsoluteHref P attributes b opts = (None, [])" by (rule e)
  next
    assume "extractAttribute attributes' ''href'' = None"
    then show "extractAbsoluteHref P attributes' b opts = extractAbsoluteHref P attributes b opts"
      by (simp add: e) (simp add: extractAbsoluteHref_def)
  next
    assume "group m 1 = Some attributes"
    then show "rel_loop P b relRegex opts (m # ms) = rel_loop P b relRegex opts ms"
      by (simp add: e)
  next
    assume "group m 1 = Some attributes"
    then show "text_loop P b textRegex opts (m # ms) = text_loop P b textRegex opts ms"
      by (simp add: e split: option.splits)
  next
    assume "group m 1 = Some attributes"
    then show "className_loop P b defaultRegex custom opts (m # ms)
            = className_loop P b defaultRegex custom opts ms"
      by (simp add: e)
  next
    assume "group m 1 = Some attributes"
    then show "ariaLabel_loop P b textRegex opts (m # ms) = ariaLabel_loop P b textRegex opts ms"
      by (simp add: e)
  next
    assume "group m 1 = Some attributes"
    then show "alt_loop P b textRegex opts (m # ms) = alt_loop P b textRegex opts ms"
      by (simp add: i split: option.splits)
  next
    assume "search regex containerHtml = Some m \<and> group m 1 = Some attributes"
    then show "container_rule P b regex opts containerHtml = (None, [])"
      by (simp add: container_rule_def e)
  qed
qed

text \<open>
  The first anchor of \<open><a href="" rel="next">a</a><a href="/b" rel="next">b</a>\<close> has the
  empty href: findNext makes no logger call and returns the second anchor's URL.
\<close>

theorem C10_empty_href_is_no_href_witness:
  "extractAttribute (js ''href=\"\" rel=\"next\"'') ''href'' = Some []
   \<and> extractAttribute (js ''rel=\"next\"'') ''href'' = None
   \<and> extractAbsoluteHref sample (js ''href=\"\" rel=\"next\"'') base opts0 = (None, [])
   \<and> group (hd (matchAll POTENTIAL_LINK_TAGS (js ''<a href=\"\" rel=\"next\">''))) 1
        = Some (js ''href=\"\" rel=\"next\"'')
   \<and> findNext sample (js ''<a href=\"\" rel=\"next\">a</a><a href=\"/b\" rel=\"next\">b</a>'')
        base opts0 = (Some (js ''https://example.com/b''), [])"
  using C10_empty_href_is_no_href
          [of "js ''href=\"\" rel=\"next\"''" sample base opts0 "js ''rel=\"next\"''"
              "hd (matchAll POTENTIAL_LINK_TAGS (js ''<a href=\"\" rel=\"next\">''))"]
  by (simp add: ev)

end
